theory Spec2Isabelle
  imports Complex_Main "HOL-Library.Log_Nat"
begin

section \<open>JavaScript values used by the page script\<close>

text \<open>
  The program under verification is the page script of chain-monitor in its latest revision:
  the classes \<^verbatim>\<open>ChainsState\<close> (registry, state matrix, sound preferences, table) and
  \<^verbatim>\<open>App\<close> (web socket handlers, reconnect back-off).  Block heights and counters are
  \<open>nat\<close>, array indices and millisecond clock readings are \<open>int\<close>: the script only
  compares, copies and subtracts them, which is exact on integer-valued doubles.  Numbers
  that may carry a fraction are \<open>rat\<close> where they are stored and IEEE doubles where the
  script computes with them: every arithmetic result is rounded to the nearest double.  A
  \<open>string\<close> is read as a sequence of code units below 256; the strings inside a parsed
  JSON value are lists of UTF-16 code units, so that a \<^verbatim>\<open>\uXXXX\<close> escape has a value.
\<close>

datatype error = SyntaxError | TypeError | RangeError

subsection \<open>Numbers\<close>

text \<open>
  A JavaScript number is NaN, an infinity or a finite double, which is a rational.  The
  sign of zero is not kept: the script never divides by a number it computed, and a negative
  zero compares and prints like zero.
\<close>

datatype number = NaN | PosInfinity | NegInfinity | Fin rat

definition pow2 :: "int \<Rightarrow> rat" where
  "pow2 e = (if 0 \<le> e then 2 ^ nat e else 1 / 2 ^ nat (- e))"

text \<open>The nearest integer, a tie going to the even one.\<close>

definition round_half_even :: "rat \<Rightarrow> int" where
  "round_half_even x =
     (let f = \<lfloor>x\<rfloor>; d = x - of_int f
      in if d < 1 / 2 then f else if 1 / 2 < d then f + 1 else if even f then f else f + 1)"

text \<open>The binary exponent \<open>e\<close> of a rational other than zero: \<open>2^e \<le> |x| < 2^(e+1)\<close>.\<close>

definition double_exponent :: "rat \<Rightarrow> int" where
  "double_exponent x =
     (let (p, q) = quotient_of x; e0 = bitlen \<bar>p\<bar> - bitlen q
      in if pow2 e0 \<le> \<bar>x\<bar> then e0 else e0 - 1)"

text \<open>
  Rounding to 53 significant bits, with the smallest exponent of binary64 (below it the
  spacing stays that of the subnormal numbers) and no largest one.
\<close>

definition round_double :: "rat \<Rightarrow> rat" where
  "round_double x =
     (if x = 0 then 0
      else
        (let u = pow2 (max (double_exponent x) (- 1022) - 52)
         in of_int (round_half_even (x / u)) * u))"

text \<open>
  The double nearest to a real number: what reaches \<open>2^1024\<close> after rounding, that is a
  binary exponent of 1024 or more, overflows.
\<close>

definition to_double :: "rat \<Rightarrow> number" where
  "to_double x =
     (let y = round_double x
      in if y = 0 then Fin 0
         else if 1024 \<le> double_exponent y then (if 0 < y then PosInfinity else NegInfinity)
         else Fin y)"

fun double_sub :: "number \<Rightarrow> number \<Rightarrow> number" where
  "double_sub (Fin a) (Fin b) = to_double (a - b)"
| "double_sub NaN y = NaN"
| "double_sub x NaN = NaN"
| "double_sub PosInfinity PosInfinity = NaN"
| "double_sub NegInfinity NegInfinity = NaN"
| "double_sub PosInfinity y = PosInfinity"
| "double_sub NegInfinity y = NegInfinity"
| "double_sub (Fin a) PosInfinity = NegInfinity"
| "double_sub (Fin a) NegInfinity = PosInfinity"

text \<open>An infinity with the sign of a rational, NaN for zero.\<close>

definition signed_infinity :: "rat \<Rightarrow> number" where
  "signed_infinity r = (if r = 0 then NaN else if 0 < r then PosInfinity else NegInfinity)"

fun double_mul :: "number \<Rightarrow> number \<Rightarrow> number" where
  "double_mul (Fin a) (Fin b) = to_double (a * b)"
| "double_mul NaN y = NaN"
| "double_mul x NaN = NaN"
| "double_mul PosInfinity (Fin b) = signed_infinity b"
| "double_mul NegInfinity (Fin b) = signed_infinity (- b)"
| "double_mul (Fin a) PosInfinity = signed_infinity a"
| "double_mul (Fin a) NegInfinity = signed_infinity (- a)"
| "double_mul PosInfinity PosInfinity = PosInfinity"
| "double_mul NegInfinity NegInfinity = PosInfinity"
| "double_mul PosInfinity NegInfinity = NegInfinity"
| "double_mul NegInfinity PosInfinity = NegInfinity"

text \<open>\<^verbatim>\<open>x < y\<close> on numbers: false as soon as one of them is NaN.\<close>

fun number_less :: "number \<Rightarrow> number \<Rightarrow> bool" where
  "number_less (Fin a) (Fin b) = (a < b)"
| "number_less NaN y = False"
| "number_less x NaN = False"
| "number_less PosInfinity y = False"
| "number_less x NegInfinity = False"
| "number_less NegInfinity y = True"
| "number_less (Fin a) PosInfinity = True"

definition Math_max :: "number \<Rightarrow> number \<Rightarrow> number" where
  "Math_max x y = (if x = NaN \<or> y = NaN then NaN else if number_less x y then y else x)"

text \<open>\<^verbatim>\<open>Math.round\<close>: the nearest integer, a half going up; it is exact on a double.\<close>

fun Math_round :: "number \<Rightarrow> number" where
  "Math_round (Fin x) = Fin (of_int \<lfloor>x + 1 / 2\<rfloor>)"
| "Math_round x = x"

text \<open>
  A time value, in milliseconds, that \<^verbatim>\<open>new Date(v)\<close> accepts; on any other
  \<^verbatim>\<open>toISOString\<close> raises a RangeError.
\<close>

definition valid_time :: "number \<Rightarrow> bool" where
  "valid_time v = (case v of Fin x \<Rightarrow> \<bar>x\<bar> \<le> 8640000000000000 | _ \<Rightarrow> False)"

subsection \<open>Parsed JSON values\<close>

type_synonym units = "nat list"

definition units_of :: "string \<Rightarrow> units" where
  "units_of s = map of_char s"

datatype json =
    JNull
  | JBool bool
  | JNum number
  | JStr units
  | JArr "json list"
  | JObj "(units \<times> json) list"

text \<open>ToBoolean on a parsed JSON value.\<close>

fun truthy :: "json \<Rightarrow> bool" where
  "truthy JNull = False"
| "truthy (JBool b) = b"
| "truthy (JNum x) = (x \<noteq> NaN \<and> x \<noteq> Fin 0)"
| "truthy (JStr s) = (s \<noteq> [])"
| "truthy (JArr _) = True"
| "truthy (JObj _) = True"

definition is_digit :: "char \<Rightarrow> bool" where
  "is_digit c = (48 \<le> (of_char c :: nat) \<and> (of_char c :: nat) \<le> 57)"

text \<open>The value of a digit in a radix up to 16; \<open>None\<close> when the character is no digit of it.\<close>

definition digit_in :: "nat \<Rightarrow> char \<Rightarrow> nat option" where
  "digit_in radix c =
     (let n = (of_char c :: nat);
          v = (if 48 \<le> n \<and> n \<le> 57 then Some (n - 48)
               else if 97 \<le> n \<and> n \<le> 102 then Some (n - 87)
               else if 65 \<le> n \<and> n \<le> 70 then Some (n - 55)
               else None)
      in case v of None \<Rightarrow> None | Some d \<Rightarrow> if d < radix then Some d else None)"

definition digits_val :: "nat \<Rightarrow> string \<Rightarrow> int" where
  "digits_val radix s =
     foldl (\<lambda>a c. int radix * a + int (case digit_in radix c of Some d \<Rightarrow> d | None \<Rightarrow> 0)) 0 s"

definition all_digits :: "nat \<Rightarrow> string \<Rightarrow> bool" where
  "all_digits radix s = (s \<noteq> [] \<and> list_all (\<lambda>c. digit_in radix c \<noteq> None) s)"

text \<open>\<open>10\<close> to the power of an integer, as a rational.\<close>

definition pow10 :: "int \<Rightarrow> rat" where
  "pow10 e = (if 0 \<le> e then 10 ^ nat e else 1 / 10 ^ nat (- e))"

text \<open>
  An optional exponent part \<^verbatim>\<open>[eE][+-]?digits\<close> that must reach the end of the text:
  the exponent, or \<open>None\<close> when the text is neither empty nor an exponent part.
\<close>

definition exponent_part :: "string \<Rightarrow> int option" where
  "exponent_part s =
     (case s of
        [] \<Rightarrow> Some 0
      | c # r \<Rightarrow>
          if c = CHR ''e'' \<or> c = CHR ''E'' then
            (case r of
               [] \<Rightarrow> None
             | d # r' \<Rightarrow>
                 if d = CHR ''+'' then (if all_digits 10 r' then Some (digits_val 10 r') else None)
                 else if d = CHR ''-'' then (if all_digits 10 r' then Some (- digits_val 10 r') else None)
                 else if all_digits 10 r then Some (digits_val 10 r) else None)
          else None)"

subsection \<open>ToNumber on a string, and the loose comparison of a string with a number\<close>

text \<open>White space and line terminators below 256: TAB, LF, VT, FF, CR, SP and NBSP.\<close>

definition StrWhiteSpaceChar :: "char \<Rightarrow> bool" where
  "StrWhiteSpaceChar c = ((of_char c :: nat) \<in> {9, 10, 11, 12, 13, 32, 160})"

definition trim :: "string \<Rightarrow> string" where
  "trim s = rev (dropWhile StrWhiteSpaceChar (rev (dropWhile StrWhiteSpaceChar s)))"

text \<open>\<^verbatim>\<open>0x\<close>, \<^verbatim>\<open>0o\<close> and \<^verbatim>\<open>0b\<close> literals (no sign is allowed before them).\<close>

definition NonDecimalIntegerLiteral :: "string \<Rightarrow> int option" where
  "NonDecimalIntegerLiteral s =
     (case s of
        z # p # ds \<Rightarrow>
          if z \<noteq> CHR ''0'' then None
          else
            (let radix = (if p = CHR ''x'' \<or> p = CHR ''X'' then 16
                          else if p = CHR ''o'' \<or> p = CHR ''O'' then 8
                          else if p = CHR ''b'' \<or> p = CHR ''B'' then 2 else (0::nat))
             in if radix \<noteq> 0 \<and> all_digits radix ds then Some (digits_val radix ds) else None)
      | _ \<Rightarrow> None)"

definition StrUnsignedDecimalLiteral :: "string \<Rightarrow> number" where
  "StrUnsignedDecimalLiteral s =
     (if s = ''Infinity'' then PosInfinity
      else
        (let ip = takeWhile is_digit s;
             r1 = dropWhile is_digit s;
             dot = (r1 \<noteq> [] \<and> hd r1 = CHR ''.'');
             fp = (if dot then takeWhile is_digit (tl r1) else []);
             r2 = (if dot then dropWhile is_digit (tl r1) else r1)
         in if ip = [] \<and> fp = [] then NaN
            else
              (case exponent_part r2 of
                 None \<Rightarrow> NaN
               | Some e \<Rightarrow>
                   Fin ((of_int (digits_val 10 ip) + of_int (digits_val 10 fp) / 10 ^ length fp)
                        * pow10 e))))"

definition negate :: "number \<Rightarrow> number" where
  "negate x = (case x of NaN \<Rightarrow> NaN | PosInfinity \<Rightarrow> NegInfinity
                | NegInfinity \<Rightarrow> PosInfinity | Fin r \<Rightarrow> Fin (- r))"

text \<open>The mathematical value of a numeric string; NaN when the string is none.\<close>

definition StringNumericValue :: "string \<Rightarrow> number" where
  "StringNumericValue str =
     (let s = trim str in
      if s = [] then Fin 0
      else
        (case NonDecimalIntegerLiteral s of
           Some n \<Rightarrow> Fin (of_int n)
         | None \<Rightarrow>
             if hd s = CHR ''+'' then StrUnsignedDecimalLiteral (tl s)
             else if hd s = CHR ''-'' then negate (StrUnsignedDecimalLiteral (tl s))
             else StrUnsignedDecimalLiteral s))"

definition StringToNumber :: "string \<Rightarrow> number" where
  "StringToNumber str = (case StringNumericValue str of Fin r \<Rightarrow> to_double r | x \<Rightarrow> x)"

text \<open>
  \<^verbatim>\<open>s != n\<close> for a string \<open>s\<close> and a number \<open>n\<close>: the string is converted with
  ToNumber, which rounds its value to a double, and the numbers are compared; NaN differs
  from every number.
\<close>

definition loose_ne :: "string \<Rightarrow> nat \<Rightarrow> bool" where
  "loose_ne s n = (StringToNumber s \<noteq> Fin (of_nat n))"

subsection \<open>JSON.parse\<close>

datatype token = LBrace | RBrace | LBracket | RBracket | Colon | Comma | TVal json

datatype lmode =
    LNormal
  | LWord string
  | LStr units
  | LEsc units
  | LUni units "nat list"

text \<open>
  The mathematical value of a JSON number
  \<^verbatim>\<open>-?(0|[1-9][0-9]*)(\.[0-9]+)?([eE][+-]?[0-9]+)?\<close>; the token holds its double.
\<close>

definition json_number :: "string \<Rightarrow> rat option" where
  "json_number w =
     (let neg = (w \<noteq> [] \<and> hd w = CHR ''-'');
          s = (if neg then tl w else w);
          ip = takeWhile is_digit s;
          r1 = dropWhile is_digit s;
          dot = (r1 \<noteq> [] \<and> hd r1 = CHR ''.'');
          fp = (if dot then takeWhile is_digit (tl r1) else []);
          r2 = (if dot then dropWhile is_digit (tl r1) else r1)
      in if ip = [] \<or> (hd ip = CHR ''0'' \<and> tl ip \<noteq> []) \<or> (dot \<and> fp = []) then None
         else
           (case exponent_part r2 of
              None \<Rightarrow> None
            | Some e \<Rightarrow>
                (let m = (of_int (digits_val 10 ip) + of_int (digits_val 10 fp) / 10 ^ length fp)
                         * pow10 e
                 in Some (if neg then - m else m))))"

text \<open>
  A maximal run of letters, digits, signs and dots is one literal or one number; two such
  tokens can never stand side by side in a JSON text, so reading the whole run loses
  nothing.
\<close>

definition is_word_char :: "char \<Rightarrow> bool" where
  "is_word_char c =
     (let n = (of_char c :: nat)
      in (48 \<le> n \<and> n \<le> 57) \<or> (97 \<le> n \<and> n \<le> 122) \<or> (65 \<le> n \<and> n \<le> 90)
         \<or> c = CHR ''+'' \<or> c = CHR ''-'' \<or> c = CHR ''.'')"

definition word_token :: "string \<Rightarrow> token option" where
  "word_token w =
     (if w = ''true'' then Some (TVal (JBool True))
      else if w = ''false'' then Some (TVal (JBool False))
      else if w = ''null'' then Some (TVal JNull)
      else map_option (\<lambda>r. TVal (JNum (to_double r))) (json_number w))"

definition json_ws :: "char \<Rightarrow> bool" where
  "json_ws c = ((of_char c :: nat) \<in> {9, 10, 13, 32})"

definition normal_step :: "char \<Rightarrow> (lmode \<times> token list) option" where
  "normal_step c =
     (if json_ws c then Some (LNormal, [])
      else if c = CHR ''{'' then Some (LNormal, [LBrace])
      else if c = CHR ''}'' then Some (LNormal, [RBrace])
      else if c = CHR ''['' then Some (LNormal, [LBracket])
      else if c = CHR '']'' then Some (LNormal, [RBracket])
      else if c = CHR '':'' then Some (LNormal, [Colon])
      else if c = CHR '','' then Some (LNormal, [Comma])
      else if (of_char c :: nat) = 34 then Some (LStr [], [])
      else if is_word_char c then Some (LWord [c], [])
      else None)"

definition escape_char :: "char \<Rightarrow> nat option" where
  "escape_char c =
     (if (of_char c :: nat) = 34 then Some 34
      else if (of_char c :: nat) = 92 then Some 92
      else if c = CHR ''/'' then Some 47
      else if c = CHR ''b'' then Some 8
      else if c = CHR ''f'' then Some 12
      else if c = CHR ''n'' then Some 10
      else if c = CHR ''r'' then Some 13
      else if c = CHR ''t'' then Some 9
      else None)"

fun lex_step :: "lmode \<Rightarrow> char \<Rightarrow> (lmode \<times> token list) option" where
  "lex_step LNormal c = normal_step c"
| "lex_step (LWord w) c =
     (if is_word_char c then Some (LWord (c # w), [])
      else
        (case word_token (rev w) of
           None \<Rightarrow> None
         | Some t \<Rightarrow> map_option (\<lambda>(m, ts). (m, t # ts)) (normal_step c)))"
| "lex_step (LStr acc) c =
     (if (of_char c :: nat) = 34 then Some (LNormal, [TVal (JStr (rev acc))])
      else if (of_char c :: nat) = 92 then Some (LEsc acc, [])
      else if (of_char c :: nat) < 32 then None
      else Some (LStr (of_char c # acc), []))"
| "lex_step (LEsc acc) c =
     (if c = CHR ''u'' then Some (LUni acc [], [])
      else map_option (\<lambda>u. (LStr (u # acc), [])) (escape_char c))"
| "lex_step (LUni acc hs) c =
     (case digit_in 16 c of
        None \<Rightarrow> None
      | Some d \<Rightarrow>
          if length hs = 3 then Some (LStr (foldl (\<lambda>a h. 16 * a + h) 0 (hs @ [d]) # acc), [])
          else Some (LUni acc (hs @ [d]), []))"

fun lex_run :: "lmode \<Rightarrow> string \<Rightarrow> token list option" where
  "lex_run m [] =
     (case m of
        LNormal \<Rightarrow> Some []
      | LWord w \<Rightarrow> map_option (\<lambda>t. [t]) (word_token (rev w))
      | _ \<Rightarrow> None)"
| "lex_run m (c # cs) =
     (case lex_step m c of
        None \<Rightarrow> None
      | Some (m', ts) \<Rightarrow> map_option ((@) ts) (lex_run m' cs))"

text \<open>
  The parser over tokens is a stack machine: \<open>CArr es\<close> is an array whose elements so far are
  \<open>es\<close> (latest first) and that waits for the next one, \<open>CObj ms k\<close> an object with members
  \<open>ms\<close> that waits for the value of key \<open>k\<close>.
\<close>

datatype ctx = CArr "json list" | CObj "(units \<times> json) list" units

datatype pstate =
    PValue "ctx list"
  | PArrStart "ctx list"
  | PObjStart "ctx list"
  | PObjKey "(units \<times> json) list" "ctx list"
  | PColon "(units \<times> json) list" units "ctx list"
  | PAfterElem "json list" "ctx list"
  | PAfterMember "(units \<times> json) list" "ctx list"
  | PDone json

fun complete :: "json \<Rightarrow> ctx list \<Rightarrow> pstate" where
  "complete v [] = PDone v"
| "complete v (CArr es # st) = PAfterElem (v # es) st"
| "complete v (CObj ms k # st) = PAfterMember ((k, v) # ms) st"

fun value_start :: "token \<Rightarrow> ctx list \<Rightarrow> pstate option" where
  "value_start (TVal v) st = Some (complete v st)"
| "value_start LBracket st = Some (PArrStart st)"
| "value_start LBrace st = Some (PObjStart st)"
| "value_start _ st = None"

fun parse_step :: "pstate \<Rightarrow> token \<Rightarrow> pstate option" where
  "parse_step (PValue st) t = value_start t st"
| "parse_step (PArrStart st) t =
     (if t = RBracket then Some (complete (JArr []) st) else value_start t (CArr [] # st))"
| "parse_step (PObjStart st) t =
     (case t of
        RBrace \<Rightarrow> Some (complete (JObj []) st)
      | TVal (JStr k) \<Rightarrow> Some (PColon [] k st)
      | _ \<Rightarrow> None)"
| "parse_step (PObjKey ms st) t =
     (case t of TVal (JStr k) \<Rightarrow> Some (PColon ms k st) | _ \<Rightarrow> None)"
| "parse_step (PColon ms k st) t =
     (if t = Colon then Some (PValue (CObj ms k # st)) else None)"
| "parse_step (PAfterElem es st) t =
     (if t = Comma then Some (PValue (CArr es # st))
      else if t = RBracket then Some (complete (JArr (rev es)) st)
      else None)"
| "parse_step (PAfterMember ms st) t =
     (if t = Comma then Some (PObjKey ms st)
      else if t = RBrace then Some (complete (JObj (rev ms)) st)
      else None)"
| "parse_step (PDone v) t = None"

fun parse_run :: "pstate \<Rightarrow> token list \<Rightarrow> pstate option" where
  "parse_run p [] = Some p"
| "parse_run p (t # ts) = (case parse_step p t of None \<Rightarrow> None | Some p' \<Rightarrow> parse_run p' ts)"

definition JSON_parse :: "string \<Rightarrow> error + json" where
  "JSON_parse text =
     (case lex_run LNormal text of
        None \<Rightarrow> Inl SyntaxError
      | Some ts \<Rightarrow>
          (case parse_run (PValue []) ts of
             Some (PDone v) \<Rightarrow> Inr v
           | _ \<Rightarrow> Inl SyntaxError))"

section \<open>The registry and the state matrix: class ChainsState\<close>

text \<open>
  An init frame carries the sources \<^verbatim>\<open>{id, shortName, fullName}\<close> and the chains
  \<^verbatim>\<open>{id, fullName, blockTimeSecs}\<close>.  An update frame is stored whole as the
  observation of its pair; the script reads its fields \<^verbatim>\<open>source\<close>, \<^verbatim>\<open>chain\<close>,
  \<^verbatim>\<open>height\<close>, \<^verbatim>\<open>hash\<close> and \<^verbatim>\<open>firstSeenTs\<close>.
\<close>

record source_info =
  source_id :: string
  shortName :: string
  source_fullName :: string

record chain_info =
  chain_id :: string
  chain_fullName :: string
  blockTimeSecs :: rat

record chainState =
  msg_source :: string
  msg_chain :: string
  height :: nat
  hash :: string
  firstSeenTs :: rat

text \<open>
  \<open>states\<close> is a JavaScript array that is written at computed indices: a write at an index
  beyond the end extends it, and a write at a negative index creates a property of that
  name, which later reads of the same index return.  It is a map from integers.
  \<open>bestHeight\<close> is only ever written at an index that was read as a number just before, so
  it keeps the length the constructor gave it.
\<close>

record ChainsState =
  sources :: "source_info list"
  chains :: "chain_info list"
  states :: "int \<rightharpoonup> chainState"
  bestHeight :: "nat list"
  MAX_BACKEND_SOURCE_CHECK_PERIOD_SECS :: nat
  enableSoundFor :: json

text \<open>What one handler run did besides changing the state: sounds and an uncaught exception.\<close>

record outcome =
  played :: bool
  raised :: "error option"

text \<open>
  \<^verbatim>\<open>JSON.parse(window.localStorage.getItem('enableSoundFor') || '{}')\<close>: the item is
  \<open>None\<close> when the storage has no such key, and the empty string is falsy as well.
\<close>

definition loadEnableSoundFor :: "string option \<Rightarrow> error + json" where
  "loadEnableSoundFor item =
     JSON_parse (case item of None \<Rightarrow> ''{}'' | Some s \<Rightarrow> if s = [] then ''{}'' else s)"

definition new_ChainsState ::
  "string option \<Rightarrow> source_info list \<Rightarrow> chain_info list \<Rightarrow> error + ChainsState" where
  "new_ChainsState item srcs chs =
     (case loadEnableSoundFor item of
        Inl e \<Rightarrow> Inl e
      | Inr prefs \<Rightarrow>
          Inr \<lparr>sources = srcs, chains = chs, states = Map.empty,
               bestHeight = replicate (length chs) 0,
               MAX_BACKEND_SOURCE_CHECK_PERIOD_SECS = 60,
               enableSoundFor = prefs\<rparr>)"

definition enableSoundForIdx :: "string \<Rightarrow> string \<Rightarrow> string" where
  "enableSoundForIdx source chain = source @ ''###'' @ chain"

text \<open>
  \<^verbatim>\<open>this.enableSoundFor[key] || false\<close>, read for its truth value.  The key contains
  \<^verbatim>\<open>###\<close>, so it names no array index and no inherited property: only an object's own
  member can answer it (the last one of a repeated key), and reading a property of
  \<^verbatim>\<open>null\<close> raises.
\<close>

definition getEnableSoundFor :: "ChainsState \<Rightarrow> string \<Rightarrow> string \<Rightarrow> error + bool" where
  "getEnableSoundFor this source chain =
     (case enableSoundFor this of
        JNull \<Rightarrow> Inl TypeError
      | JObj ms \<Rightarrow>
          Inr (case map_of (rev ms) (units_of (enableSoundForIdx source chain)) of
                 None \<Rightarrow> False
               | Some v \<Rightarrow> truthy v)
      | _ \<Rightarrow> Inr False)"

text \<open>\<^verbatim>\<open>Array.prototype.findIndex\<close>: the first index whose element passes, or \<open>-1\<close>.\<close>

fun findIndex_from :: "int \<Rightarrow> ('a \<Rightarrow> bool) \<Rightarrow> 'a list \<Rightarrow> int" where
  "findIndex_from k p [] = - 1"
| "findIndex_from k p (x # xs) = (if p x then k else findIndex_from (k + 1) p xs)"

definition findIndex :: "('a \<Rightarrow> bool) \<Rightarrow> 'a list \<Rightarrow> int" where
  "findIndex p xs = findIndex_from 0 p xs"

definition getIdx :: "ChainsState \<Rightarrow> int \<Rightarrow> int \<Rightarrow> int" where
  "getIdx this sourceIdx chainIdx = sourceIdx * int (length (chains this)) + chainIdx"

definition getIdxByIds :: "ChainsState \<Rightarrow> string \<Rightarrow> string \<Rightarrow> int" where
  "getIdxByIds this source chain =
     getIdx this
       (findIndex (\<lambda>element. source_id element = source) (sources this))
       (findIndex (\<lambda>element. chain_id element = chain) (chains this))"

definition getChainIdx :: "ChainsState \<Rightarrow> string \<Rightarrow> int" where
  "getChainIdx this chain = findIndex (\<lambda>element. chain_id element = chain) (chains this)"

text \<open>Reading a list at a JavaScript index: \<open>None\<close> is \<^verbatim>\<open>undefined\<close>.\<close>

definition js_get :: "'a list \<Rightarrow> int \<Rightarrow> 'a option" where
  "js_get xs i = (if 0 \<le> i \<and> i < int (length xs) then Some (xs ! nat i) else None)"

text \<open>
  \<^verbatim>\<open>update(source, chain, chainState)\<close>.  \<^verbatim>\<open>undefined < height\<close> is false, so an
  unknown chain leaves \<open>bestHeight\<close> alone.  The sound condition compares the previous
  \<^emph>\<open>hash\<close> with the new \<^emph>\<open>height\<close>, loosely; \<^verbatim>\<open>&&\<close> reads the preference only
  when that comparison holds, and \<^verbatim>\<open>playSound\<close> catches its own failures.
\<close>

definition update :: "ChainsState \<Rightarrow> string \<Rightarrow> string \<Rightarrow> chainState \<Rightarrow> outcome \<times> ChainsState" where
  "update this source chain chainState =
     (let stateIdx = getIdxByIds this source chain;
          prevState = states this stateIdx;
          this1 = this\<lparr>states := (states this)(stateIdx \<mapsto> chainState)\<rparr>;
          bestHeightIdx = getChainIdx this1 chain;
          this2 =
            (case js_get (bestHeight this1) bestHeightIdx of
               None \<Rightarrow> this1
             | Some b \<Rightarrow>
                 if b < height chainState
                 then this1\<lparr>bestHeight := (bestHeight this1)[nat bestHeightIdx := height chainState]\<rparr>
                 else this1)
      in if (case prevState of None \<Rightarrow> True | Some p \<Rightarrow> loose_ne (hash p) (height chainState))
         then
           (case getEnableSoundFor this2 source chain of
              Inl e \<Rightarrow> (\<lparr>played = False, raised = Some e\<rparr>, this2)
            | Inr enabled \<Rightarrow> (\<lparr>played = enabled, raised = None\<rparr>, this2))
         else (\<lparr>played = False, raised = None\<rparr>, this2))"

text \<open>A run of updates, each \<open>(source, chain, chainState)\<close>, uncaught exceptions included.\<close>

fun updates :: "ChainsState \<Rightarrow> (string \<times> string \<times> chainState) list \<Rightarrow> ChainsState" where
  "updates this [] = this"
| "updates this ((source, chain, chainState) # us) =
     updates (snd (update this source chain chainState)) us"

subsection \<open>The table: the classes of each cell\<close>

text \<open>
  The text of a cell is the height difference; \<open>None\<close> is NaN (a height minus
  \<^verbatim>\<open>undefined\<close>).  A cell without an observation has the empty text.
\<close>

datatype cell_text = NoText | DiffText "int option"

record cell =
  classList :: "string list"
  cellText :: cell_text

text \<open>
  \<^verbatim>\<open>Math.round(nowTs - chainState.firstSeenTs)\<close> with
  \<^verbatim>\<open>nowTs = new Date().getTime() / 1000\<close>, in doubles.  \<open>nowMs\<close> is the clock reading,
  a time value (an integer of at most \<open>8.64e15\<close> in magnitude).
\<close>

definition stalenessSecs :: "int \<Rightarrow> rat \<Rightarrow> number" where
  "stalenessSecs nowMs firstSeen =
     (let nowTs = to_double (of_int nowMs / 1000)
      in Math_round (double_sub nowTs (to_double firstSeen)))"

text \<open>Whether \<^verbatim>\<open>new Date(1000 * chainState.firstSeenTs).toISOString()\<close> returns.\<close>

definition firstSeen_date_valid :: "rat \<Rightarrow> bool" where
  "firstSeen_date_valid firstSeen = valid_time (double_mul (Fin 1000) (to_double firstSeen))"

text \<open>\<^verbatim>\<open>Math.max(chain.blockTimeSecs * 3, this.MAX_BACKEND_SOURCE_CHECK_PERIOD_SECS)\<close>.\<close>

definition stale_limit :: "rat \<Rightarrow> nat \<Rightarrow> number" where
  "stale_limit blockTime period =
     Math_max (double_mul (to_double blockTime) (Fin 3)) (Fin (of_nat period))"

text \<open>
  The body of the inner loop of \<^verbatim>\<open>renderTable\<close> for one chain row and one source
  column.  \<open>best\<close> is the row's \<^verbatim>\<open>this.bestHeight[chainIdx]\<close> and \<open>nowMs\<close> the clock
  reading \<^verbatim>\<open>new Date().getTime()\<close>.  Comparisons with NaN are false.  The tooltip prints
  the date of \<open>firstSeenTs\<close>, which raises when that is no valid date, before the cell gets
  any of the classes below.
\<close>

definition renderCell ::
  "int \<Rightarrow> ChainsState \<Rightarrow> nat \<Rightarrow> chain_info \<Rightarrow> nat option \<Rightarrow> nat \<Rightarrow> source_info \<Rightarrow> error + cell" where
  "renderCell nowMs this chainIdx chain best sourceIdx source =
     (let stateIdx = getIdx this (int sourceIdx) (int chainIdx)
      in case states this stateIdx of
           None \<Rightarrow> Inr \<lparr>classList = [''missing-state''], cellText = NoText\<rparr>
         | Some chainState \<Rightarrow>
             (case getEnableSoundFor this (source_id source) (chain_id chain) of
                Inl e \<Rightarrow> Inl e
              | Inr enabled \<Rightarrow>
                  (let diff = map_option (\<lambda>b. int (height chainState) - int b) best;
                       staleness = stalenessSecs nowMs (firstSeenTs chainState)
                   in if \<not> firstSeen_date_valid (firstSeenTs chainState) then Inl RangeError
                      else
                        Inr \<lparr>classList =
                               [if enabled then ''sound-enabled'' else ''sound-disabled'']
                               @ [if (case diff of None \<Rightarrow> False | Some d \<Rightarrow> d \<ge> - 1)
                                  then ''at-chainhead'' else ''not-at-chainhead'']
                               @ (if number_less staleness (Fin 25) then [''just-increased'']
                                  else [])
                               @ (if number_less
                                       (stale_limit (blockTimeSecs chain)
                                          (MAX_BACKEND_SOURCE_CHECK_PERIOD_SECS this))
                                       staleness
                                  then [''stale''] else []),
                             cellText = DiffText diff\<rparr>)))"

text \<open>The first exception ends the rendering.\<close>

fun sequence :: "(error + 'a) list \<Rightarrow> error + 'a list" where
  "sequence [] = Inr []"
| "sequence (r # rs) =
     (case r of
        Inl e \<Rightarrow> Inl e
      | Inr x \<Rightarrow> (case sequence rs of Inl e \<Rightarrow> Inl e | Inr xs \<Rightarrow> Inr (x # xs)))"

definition renderRow :: "int \<Rightarrow> ChainsState \<Rightarrow> nat \<Rightarrow> chain_info \<Rightarrow> error + cell list" where
  "renderRow nowMs this chainIdx chain =
     sequence (map (\<lambda>(sourceIdx, source).
                      renderCell nowMs this chainIdx chain (js_get (bestHeight this) (int chainIdx))
                        sourceIdx source)
                   (zip [0 ..< length (sources this)] (sources this)))"

definition renderTable :: "int \<Rightarrow> ChainsState \<Rightarrow> error + cell list list" where
  "renderTable nowMs this =
     sequence (map (\<lambda>(chainIdx, chain). renderRow nowMs this chainIdx chain)
                   (zip [0 ..< length (chains this)] (chains this)))"

section \<open>The connection: class App\<close>

text \<open>
  \<open>app_chains\<close> is \<^verbatim>\<open>app.chains\<close>, undefined until the first init frame; the two flags
  are the visibility of the page's \<^verbatim>\<open>reconnecting\<close> and \<^verbatim>\<open>conn-lost\<close> banners.
\<close>

record App =
  reconnectCount :: nat
  app_chains :: "ChainsState option"
  reconnecting_shown :: bool
  conn_lost_shown :: bool

definition new_App :: "bool \<Rightarrow> bool \<Rightarrow> App" where
  "new_App r l = \<lparr>reconnectCount = 0, app_chains = None, reconnecting_shown = r, conn_lost_shown = l\<rparr>"

definition showReconnecting :: "App \<Rightarrow> App" where
  "showReconnecting app = app\<lparr>reconnecting_shown := True\<rparr>"

definition showConnLost :: "App \<Rightarrow> App" where
  "showConnLost app = app\<lparr>reconnecting_shown := False, conn_lost_shown := True\<rparr>"

definition showConnected :: "App \<Rightarrow> App" where
  "showConnected app = app\<lparr>conn_lost_shown := False, reconnecting_shown := False\<rparr>"

definition connect :: "App \<Rightarrow> App" where
  "connect app = showReconnecting app"

text \<open>The \<^verbatim>\<open>open\<close> handler shows the connected page and logs; it writes nothing else.\<close>

definition on_open :: "App \<Rightarrow> App" where
  "on_open app = showConnected app"

text \<open>
  The data of a message event after \<^verbatim>\<open>JSON.parse\<close>: \<open>Unparsable\<close> when the parse
  raises, \<open>Null\<close> for the value \<^verbatim>\<open>null\<close> (reading its \<^verbatim>\<open>type\<close> raises), \<open>Other\<close> for
  a value whose \<^verbatim>\<open>type\<close> is neither \<^verbatim>\<open>init\<close> nor \<^verbatim>\<open>update\<close>.
\<close>

datatype message =
    Unparsable
  | Null
  | Init "source_info list" "chain_info list"
  | Update chainState
  | Other

definition redraw :: "int \<Rightarrow> App \<Rightarrow> error option" where
  "redraw nowMs app =
     (case app_chains app of
        None \<Rightarrow> Some TypeError
      | Some cs \<Rightarrow> (case renderTable nowMs cs of Inl e \<Rightarrow> Some e | Inr _ \<Rightarrow> None))"

text \<open>
  The \<^verbatim>\<open>message\<close> handler.  \<open>item\<close> is the stored preference text the constructor
  reads, \<open>nowMs\<close> the clock at the redraw.  The counter is cleared right after the parse.
\<close>

fun on_message :: "string option \<Rightarrow> int \<Rightarrow> message \<Rightarrow> App \<Rightarrow> outcome \<times> App" where
  "on_message item nowMs Unparsable app = (\<lparr>played = False, raised = Some SyntaxError\<rparr>, app)"
| "on_message item nowMs Null app =
     (\<lparr>played = False, raised = Some TypeError\<rparr>, app\<lparr>reconnectCount := 0\<rparr>)"
| "on_message item nowMs (Init srcs chs) app =
     (let app1 = app\<lparr>reconnectCount := 0\<rparr>
      in case new_ChainsState item srcs chs of
           Inl e \<Rightarrow> (\<lparr>played = False, raised = Some e\<rparr>, app1)
         | Inr cs \<Rightarrow>
             (let app2 = app1\<lparr>app_chains := Some cs\<rparr>
              in (\<lparr>played = False, raised = redraw nowMs app2\<rparr>, app2)))"
| "on_message item nowMs (Update chainState) app =
     (let app1 = app\<lparr>reconnectCount := 0\<rparr>
      in case app_chains app1 of
           None \<Rightarrow> (\<lparr>played = False, raised = Some TypeError\<rparr>, app1)
         | Some cs \<Rightarrow>
             (let (out, cs') = update cs (msg_source chainState) (msg_chain chainState) chainState;
                  app2 = app1\<lparr>app_chains := Some cs'\<rparr>
              in case raised out of
                   Some e \<Rightarrow> (out, app2)
                 | None \<Rightarrow> (out\<lparr>raised := redraw nowMs app2\<rparr>, app2)))"
| "on_message item nowMs Other app = (\<lparr>played = False, raised = None\<rparr>, app\<lparr>reconnectCount := 0\<rparr>)"

text \<open>
  The \<^verbatim>\<open>close\<close> handler: \<open>random\<close> is the value of \<^verbatim>\<open>Math.random()\<close>, in \<open>[0, 1)\<close>;
  the delay is in milliseconds and is computed before the counter goes up.
\<close>

definition reconnectDelay :: "rat \<Rightarrow> nat \<Rightarrow> rat" where
  "reconnectDelay random n = min 60000 (1000 * of_nat n * (random + 1 / 2))"

definition on_close :: "rat \<Rightarrow> App \<Rightarrow> rat \<times> App" where
  "on_close random app =
     (let app1 = showConnLost app
      in (reconnectDelay random (reconnectCount app1),
          app1\<lparr>reconnectCount := reconnectCount app1 + 1\<rparr>))"

section \<open>The earlier revision of the update\<close>

text \<open>
  In the earlier revision \<^verbatim>\<open>assets/script.js\<close> the registry holds bare ids, the frame
  carries \<^verbatim>\<open>first_seen_ts\<close> and \<^verbatim>\<open>last_checked_ts\<close>, and the update sounds when
  the two are equal; it then records the comparison in the stored frame itself.
\<close>

record legacy_frame =
  legacy_height :: nat
  legacy_hash :: string
  first_seen_ts :: rat
  last_checked_ts :: rat

record legacy_stored = legacy_frame +
  justIncreased :: bool

record legacy_ChainsState =
  legacy_sources :: "string list"
  sourcesFullName :: "string list"
  legacy_chains :: "string list"
  chainsFullName :: "string list"
  legacy_states :: "int \<rightharpoonup> legacy_stored"
  legacy_bestHeight :: "nat list"

definition legacy_getIdxByIds :: "legacy_ChainsState \<Rightarrow> string \<Rightarrow> string \<Rightarrow> int" where
  "legacy_getIdxByIds this source chain =
     findIndex (\<lambda>element. element = source) (legacy_sources this) * int (length (legacy_chains this))
     + findIndex (\<lambda>element. element = chain) (legacy_chains this)"

definition legacy_update ::
  "legacy_ChainsState \<Rightarrow> string \<Rightarrow> string \<Rightarrow> legacy_frame \<Rightarrow> bool \<times> legacy_ChainsState" where
  "legacy_update this source chain chainState =
     (let stateIdx = legacy_getIdxByIds this source chain;
          bestHeightIdx = findIndex (\<lambda>element. element = chain) (legacy_chains this);
          best =
            (case js_get (legacy_bestHeight this) bestHeightIdx of
               None \<Rightarrow> legacy_bestHeight this
             | Some b \<Rightarrow>
                 if b < legacy_height chainState
                 then (legacy_bestHeight this)[nat bestHeightIdx := legacy_height chainState]
                 else legacy_bestHeight this);
          sound = (first_seen_ts chainState = last_checked_ts chainState);
          stored =
            \<lparr>legacy_height = legacy_height chainState, legacy_hash = legacy_hash chainState,
             first_seen_ts = first_seen_ts chainState,
             last_checked_ts = last_checked_ts chainState, justIncreased = sound\<rparr>
      in (sound,
          this\<lparr>legacy_states := (legacy_states this)(stateIdx \<mapsto> stored),
               legacy_bestHeight := best\<rparr>))"

section \<open>Auxiliary notions for the proofs\<close>

text \<open>
  Every stored observation is at most the best height of the chain column its slot lies in.
  It holds as long as every update names a chain of the registry.
\<close>

definition height_ok :: "ChainsState \<Rightarrow> bool" where
  "height_ok this \<longleftrightarrow>
     length (bestHeight this) = length (chains this) \<and>
     (\<forall>k p. states this k = Some p \<longrightarrow>
        height p \<le> bestHeight this ! nat (k mod int (length (chains this))))"

text \<open>
  The scenario of the specification: sources \<open>A\<close> and \<open>B\<close>, one chain \<open>X\<close>, no stored
  preference.
\<close>

definition scenario_A :: source_info where
  "scenario_A = \<lparr>source_id = ''A'', shortName = ''a'', source_fullName = ''Source A''\<rparr>"

definition scenario_B :: source_info where
  "scenario_B = \<lparr>source_id = ''B'', shortName = ''b'', source_fullName = ''Source B''\<rparr>"

definition scenario_X :: chain_info where
  "scenario_X = \<lparr>chain_id = ''X'', chain_fullName = ''Chain X'', blockTimeSecs = 600\<rparr>"

definition observation :: "string \<Rightarrow> string \<Rightarrow> nat \<Rightarrow> string \<Rightarrow> rat \<Rightarrow> chainState" where
  "observation source chain h hs ts =
     \<lparr>msg_source = source, msg_chain = chain, height = h, hash = hs, firstSeenTs = ts\<rparr>"

definition scenario_init :: ChainsState where
  "scenario_init =
     \<lparr>sources = [scenario_A, scenario_B], chains = [scenario_X], states = Map.empty,
      bestHeight = [0], MAX_BACKEND_SOURCE_CHECK_PERIOD_SECS = 60, enableSoundFor = JObj []\<rparr>"

definition scenario_updates :: "(string \<times> string \<times> chainState) list" where
  "scenario_updates =
     [(''A'', ''X'', observation ''A'' ''X'' 100 ''h1'' 1000),
      (''B'', ''X'', observation ''B'' ''X'' 99 ''h2'' 1001),
      (''B'', ''X'', observation ''B'' ''X'' 80 ''h3'' 1002)]"

text \<open>The scenario after its first two updates, and after all three.\<close>

definition scenario_1 :: ChainsState where
  "scenario_1 = updates scenario_init (take 2 scenario_updates)"


text \<open>An observation whose \<open>firstSeenTs\<close> carries a fraction: 7.55 seconds.\<close>

definition scenario_fraction :: "(string \<times> string \<times> chainState) list" where
  "scenario_fraction = [(''A'', ''X'', observation ''A'' ''X'' 100 ''h1'' (151 / 20))]"

text \<open>
  A stale frame: an update for source \<open>B\<close> and a chain \<open>Y\<close> that the registry does not
  have, received right after the init of the scenario.
\<close>

definition scenario_stale :: ChainsState where
  "scenario_stale = snd (update scenario_init ''B'' ''Y'' (observation ''B'' ''Y'' 500 ''h9'' 1000))"

text \<open>
  The scenario with a stored preference: the text \<^verbatim>\<open>{"A###X":true}\<close>, an object
  whose only member is the key of the pair \<open>(A, X)\<close>.
\<close>

definition scenario_prefs_text :: string where
  "scenario_prefs_text = ''{'' @ [CHR 0x22] @ ''A###X'' @ [CHR 0x22] @ '':true}''"

definition scenario_enabled :: ChainsState where
  "scenario_enabled = scenario_init\<lparr>enableSoundFor := JObj [(units_of ''A###X'', JBool True)]\<rparr>"

text \<open>An application that lost its connection three times in a row.\<close>

definition flapping :: App where
  "flapping =
     connect (snd (on_close (1 / 2) (connect (snd (on_close (1 / 2)
       (connect (snd (on_close (1 / 2) (connect (new_App False False))))))))))"

section \<open>Lookups and the frame of an update\<close>

lemma findIndex_from_range:
  "findIndex_from k p xs = - 1 \<or>
   (k \<le> findIndex_from k p xs \<and> findIndex_from k p xs < k + int (length xs)
    \<and> p (xs ! nat (findIndex_from k p xs - k)))"
proof (induction xs arbitrary: k)
  case Nil
  then show ?case by simp
next
  case (Cons x xs)
  show ?case
  proof (cases "p x")
    case True
    then show ?thesis by simp
  next
    case False
    let ?r = "findIndex_from (k + 1) p xs"
    from Cons.IH [of "k + 1"] consider "?r = - 1"
      | "k + 1 \<le> ?r" "?r < k + 1 + int (length xs)" "p (xs ! nat (?r - (k + 1)))"
      by blast
    then show ?thesis
    proof cases
      case 1
      with False show ?thesis by simp
    next
      case 2
      from 2(1) have "nat (?r - k) = Suc (nat (?r - (k + 1)))" by arith
      with 2 False show ?thesis by simp
    qed
  qed
qed

lemma findIndex_cases:
  "findIndex p xs = - 1 \<or>
   (0 \<le> findIndex p xs \<and> findIndex p xs < int (length xs) \<and> p (xs ! nat (findIndex p xs)))"
  using findIndex_from_range [of 0 p xs] by (simp add: findIndex_def)

lemma findIndex_nonneg:
  "0 \<le> findIndex p xs \<Longrightarrow> findIndex p xs < int (length xs) \<and> p (xs ! nat (findIndex p xs))"
  using findIndex_cases [of p xs] by auto

lemma findIndex_neg: "findIndex p xs < 0 \<Longrightarrow> findIndex p xs = - 1"
  using findIndex_cases [of p xs] by auto

lemma getChainIdx_known:
  "0 \<le> getChainIdx this chain \<Longrightarrow>
   getChainIdx this chain < int (length (chains this))
   \<and> chain_id (chains this ! nat (getChainIdx this chain)) = chain"
  unfolding getChainIdx_def by (rule findIndex_nonneg)

lemma update_states:
  "states (snd (update this source chain f)) = (states this)(getIdxByIds this source chain \<mapsto> f)"
  by (simp add: update_def Let_def split: option.splits sum.splits)

lemma update_chains [simp]: "chains (snd (update this source chain f)) = chains this"
  by (simp add: update_def Let_def split: option.splits sum.splits)

lemma update_sources [simp]: "sources (snd (update this source chain f)) = sources this"
  by (simp add: update_def Let_def split: option.splits sum.splits)

lemma update_prefs [simp]: "enableSoundFor (snd (update this source chain f)) = enableSoundFor this"
  by (simp add: update_def Let_def split: option.splits sum.splits)

lemma update_MAX [simp]:
  "MAX_BACKEND_SOURCE_CHECK_PERIOD_SECS (snd (update this source chain f))
   = MAX_BACKEND_SOURCE_CHECK_PERIOD_SECS this"
  by (simp add: update_def Let_def split: option.splits sum.splits)

lemma update_bestHeight:
  "bestHeight (snd (update this source chain f)) =
     (case js_get (bestHeight this) (getChainIdx this chain) of
        None \<Rightarrow> bestHeight this
      | Some b \<Rightarrow> if b < height f then (bestHeight this)[nat (getChainIdx this chain) := height f]
                  else bestHeight this)"
  by (simp add: update_def Let_def getChainIdx_def split: option.splits sum.splits)

lemma update_length_bestHeight [simp]:
  "length (bestHeight (snd (update this source chain f))) = length (bestHeight this)"
  by (simp add: update_bestHeight split: option.splits)

lemma update_bestHeight_mono:
  "i < length (bestHeight this) \<Longrightarrow>
   bestHeight this ! i \<le> bestHeight (snd (update this source chain f)) ! i"
  by (auto simp: update_bestHeight js_get_def nth_list_update split: option.splits if_splits)

lemma updates_append: "updates this (us @ vs) = updates (updates this us) vs"
  by (induction us arbitrary: this) auto

lemma updates_chains [simp]: "chains (updates this us) = chains this"
  by (induction us arbitrary: this) auto

lemma updates_sources [simp]: "sources (updates this us) = sources this"
  by (induction us arbitrary: this) auto

lemma updates_prefs [simp]: "enableSoundFor (updates this us) = enableSoundFor this"
  by (induction us arbitrary: this) auto

lemma updates_MAX [simp]:
  "MAX_BACKEND_SOURCE_CHECK_PERIOD_SECS (updates this us) = MAX_BACKEND_SOURCE_CHECK_PERIOD_SECS this"
  by (induction us arbitrary: this) auto

lemma updates_length_bestHeight [simp]:
  "length (bestHeight (updates this us)) = length (bestHeight this)"
  by (induction us arbitrary: this) auto

lemma getChainIdx_update [simp]:
  "getChainIdx (snd (update this source chain f)) c = getChainIdx this c"
  by (simp add: getChainIdx_def)

lemma getChainIdx_updates [simp]: "getChainIdx (updates this us) c = getChainIdx this c"
  by (simp add: getChainIdx_def)

lemma updates_bestHeight_mono:
  "i < length (bestHeight this) \<Longrightarrow> bestHeight this ! i \<le> bestHeight (updates this us) ! i"
proof (induction us arbitrary: this)
  case Nil
  then show ?case by simp
next
  case (Cons u us)
  obtain s c f where u: "u = (s, c, f)" by (cases u)
  have "bestHeight this ! i \<le> bestHeight (snd (update this s c f)) ! i"
    using Cons.prems by (rule update_bestHeight_mono)
  also have "\<dots> \<le> bestHeight (updates (snd (update this s c f)) us) ! i"
    using Cons.prems by (intro Cons.IH) simp
  finally show ?case by (simp add: u)
qed

text \<open>One update at the index of a known chain.\<close>

lemma update_bestHeight_at:
  assumes len: "length (bestHeight this) = length (chains this)"
    and known: "0 \<le> getChainIdx this chain"
  shows "bestHeight (snd (update this source c f)) ! nat (getChainIdx this chain) =
         (if c = chain then max (bestHeight this ! nat (getChainIdx this chain)) (height f)
          else bestHeight this ! nat (getChainIdx this chain))"
proof -
  let ?i = "getChainIdx this chain"
  from getChainIdx_known [OF known] have i: "?i < int (length (chains this))"
    and idi: "chain_id (chains this ! nat ?i) = chain" by simp_all
  show ?thesis
  proof (cases "c = chain")
    case True
    with len known i show ?thesis
      by (simp add: update_bestHeight js_get_def max_def)
  next
    case False
    let ?j = "getChainIdx this c"
    have ne: "?j \<noteq> ?i"
    proof
      assume eq: "?j = ?i"
      with known have "0 \<le> ?j" by simp
      from getChainIdx_known [OF this] eq idi False show False by simp
    qed
    have "nat ?j \<noteq> nat ?i" if "0 \<le> ?j" using that known ne by simp
    with False show ?thesis
      by (simp add: update_bestHeight js_get_def split: option.splits)
  qed
qed

section \<open>Best height\<close>

lemma JSON_parse_empty_object: "JSON_parse ''{}'' = Inr (JObj [])"
  by code_simp

lemma scenario_init_new:
  "new_ChainsState None [scenario_A, scenario_B] [scenario_X] = Inr scenario_init"
  by (simp add: new_ChainsState_def loadEnableSoundFor_def JSON_parse_empty_object scenario_init_def)

lemma new_ChainsState_fields:
  assumes "new_ChainsState item srcs chs = Inr st0"
  shows "sources st0 = srcs" "chains st0 = chs" "states st0 = Map.empty"
    "bestHeight st0 = replicate (length chs) 0"
    "MAX_BACKEND_SOURCE_CHECK_PERIOD_SECS st0 = 60"
  using assms by (auto simp: new_ChainsState_def split: sum.splits)


lemma updates_bestHeight_fold:
  assumes "length (bestHeight this) = length (chains this)"
    and "0 \<le> getChainIdx this chain"
  shows "bestHeight (updates this us) ! nat (getChainIdx this chain) =
         fold max (map (\<lambda>(s, c, f). height f) (filter (\<lambda>(s, c, f). c = chain) us))
           (bestHeight this ! nat (getChainIdx this chain))"
  using assms
proof (induction us arbitrary: this)
  case Nil
  then show ?case by simp
next
  case (Cons u us)
  obtain s c f where u: "u = (s, c, f)" by (cases u)
  let ?this' = "snd (update this s c f)"
  have len': "length (bestHeight ?this') = length (chains ?this')"
    using Cons.prems(1) by simp
  have known': "0 \<le> getChainIdx ?this' chain"
    using Cons.prems(2) by simp
  have step: "bestHeight ?this' ! nat (getChainIdx this chain) =
      (if c = chain then max (bestHeight this ! nat (getChainIdx this chain)) (height f)
       else bestHeight this ! nat (getChainIdx this chain))"
    using Cons.prems by (rule update_bestHeight_at)
  from Cons.IH [OF len' known'] step show ?case
    by (simp add: u max.commute)
qed

text \<open>
  Claim C1.  A fresh \<open>ChainsState\<close> (what an init frame installs as \<^verbatim>\<open>app.chains\<close>) has
  every \<open>bestHeight\<close> entry at zero.  After any run of updates (known or unknown sources
  alike), the entry of a chain of the registry is the largest height among the updates
  received for that chain since the init, zero when there was none, and it never goes
  down when more updates follow.
\<close>

theorem bestHeight_is_running_max:
  assumes init: "new_ChainsState item srcs chs = Inr st0"
    and known: "0 \<le> getChainIdx st0 chain"
  shows "bestHeight st0 = replicate (length chs) 0
       \<and> app_chains (snd (on_message item nowMs (Init srcs chs) app)) = Some st0
       \<and> bestHeight (updates st0 us) ! nat (getChainIdx st0 chain)
           = Max (set (0 # map (\<lambda>(s, c, f). height f) (filter (\<lambda>(s, c, f). c = chain) us)))
       \<and> bestHeight (updates st0 us) ! nat (getChainIdx st0 chain)
           \<le> bestHeight (updates st0 (us @ vs)) ! nat (getChainIdx st0 chain)"
proof -
  let ?i = "nat (getChainIdx st0 chain)"
  note f = new_ChainsState_fields [OF init]
  have len: "length (bestHeight st0) = length (chains st0)"
    by (simp add: f)
  from getChainIdx_known [OF known] have "getChainIdx st0 chain < int (length chs)"
    by (simp add: f)
  with known have i: "?i < length chs"
    by (simp add: nat_less_iff)
  then have zero: "bestHeight st0 ! ?i = 0"
    by (simp add: f)
  have "bestHeight (updates st0 us) ! ?i
        = fold max (map (\<lambda>(s, c, f). height f) (filter (\<lambda>(s, c, f). c = chain) us)) 0"
    using updates_bestHeight_fold [OF len known, of us] zero by simp
  then have mx: "bestHeight (updates st0 us) ! ?i
        = Max (set (0 # map (\<lambda>(s, c, f). height f) (filter (\<lambda>(s, c, f). c = chain) us)))"
    by (simp only: Max.set_eq_fold)
  have "?i < length (bestHeight (updates st0 us))"
    using i by (simp add: f)
  then have mono: "bestHeight (updates st0 us) ! ?i \<le> bestHeight (updates st0 (us @ vs)) ! ?i"
    unfolding updates_append by (rule updates_bestHeight_mono)
  have msg: "app_chains (snd (on_message item nowMs (Init srcs chs) app)) = Some st0"
    using init by (simp add: Let_def)
  from f(4) msg mx mono show ?thesis by blast
qed

theorem bestHeight_is_running_max_witness:
  "new_ChainsState None [scenario_A, scenario_B] [scenario_X] = Inr scenario_init
   \<and> 0 \<le> getChainIdx scenario_init ''X''
   \<and> bestHeight scenario_init = [0]
   \<and> bestHeight (updates scenario_init scenario_updates) ! 0 = 100"
proof -
  have idx: "getChainIdx scenario_init ''X'' = 0"
    by (simp add: getChainIdx_def findIndex_def scenario_init_def scenario_X_def)
  then have known: "0 \<le> getChainIdx scenario_init ''X''" by simp
  have mx: "Max (set (0 # map (\<lambda>(s, c, f). height f)
                     (filter (\<lambda>(s, c, f). c = ''X'') scenario_updates))) = 100"
    by (simp add: scenario_updates_def observation_def)
  note T = bestHeight_is_running_max [OF scenario_init_new known,
      where us = scenario_updates and vs = "[]"]
  from T have a: "bestHeight scenario_init = replicate (length [scenario_X]) 0"
    by blast
  from T have "bestHeight (updates scenario_init scenario_updates) ! nat (getChainIdx scenario_init ''X'')
      = Max (set (0 # map (\<lambda>(s, c, f). height f)
                     (filter (\<lambda>(s, c, f). c = ''X'') scenario_updates)))"
    by blast
  then have b: "bestHeight (updates scenario_init scenario_updates) ! 0 = 100"
    by (simp only: idx mx nat_0)
  from scenario_init_new known a b show ?thesis by simp
qed

section \<open>Slots of distinct pairs\<close>

lemma getIdx_mod:
  "0 \<le> ci \<Longrightarrow> ci < int (length (chains this)) \<Longrightarrow>
   getIdx this si ci mod int (length (chains this)) = ci"
  by (simp add: getIdx_def)

lemma getIdx_div:
  "0 \<le> ci \<Longrightarrow> ci < int (length (chains this)) \<Longrightarrow>
   getIdx this si ci div int (length (chains this)) = si"
proof -
  assume a: "0 \<le> ci" "ci < int (length (chains this))"
  then have "int (length (chains this)) \<noteq> 0" by auto
  then have "(si * int (length (chains this)) + ci) div int (length (chains this))
             = si + ci div int (length (chains this))"
    by (rule div_mult_self3)
  with a show ?thesis by (simp add: getIdx_def)
qed

lemma getIdx_inj:
  assumes "0 \<le> ci" "ci < int (length (chains this))"
    and "0 \<le> cj" "cj < int (length (chains this))"
    and "getIdx this si ci = getIdx this sj cj"
  shows "si = sj \<and> ci = cj"
  using getIdx_mod [OF assms(1,2), of si] getIdx_mod [OF assms(3,4), of sj]
    getIdx_div [OF assms(1,2), of si] getIdx_div [OF assms(3,4), of sj] assms(5)
  by simp

text \<open>
  Claim C9.  Two distinct pairs of a source index and a chain index, the chain indices
  within the registry, have distinct slots \<open>sourceIdx * chains.length + chainIdx\<close>; so an
  update for a pair of the registry leaves the stored observation of every other such pair
  as it was.
\<close>

theorem update_leaves_other_pairs:
  assumes "0 \<le> si" and "0 \<le> ci" and "ci < int (length (chains this))"
    and "0 \<le> sj" and "0 \<le> cj" and "cj < int (length (chains this))"
    and "(si, ci) \<noteq> (sj, cj)"
  shows "getIdx this si ci \<noteq> getIdx this sj cj
       \<and> (findIndex (\<lambda>element. source_id element = source) (sources this) = si
            \<and> getChainIdx this chain = ci
          \<longrightarrow> states (snd (update this source chain f)) (getIdx this sj cj)
              = states this (getIdx this sj cj))"
proof -
  have ne: "getIdx this si ci \<noteq> getIdx this sj cj"
    using getIdx_inj [OF assms(2,3) assms(5,6), of si sj] assms(7) by auto
  then show ?thesis
    by (auto simp: update_states getIdxByIds_def getChainIdx_def)
qed

lemma scenario_1_states:
  "states scenario_1 0 = Some (observation ''A'' ''X'' 100 ''h1'' 1000)"
  "states scenario_1 1 = Some (observation ''B'' ''X'' 99 ''h2'' 1001)"
  "chains scenario_1 = [scenario_X]"
  "sources scenario_1 = [scenario_A, scenario_B]"
  by (simp_all add: scenario_1_def scenario_updates_def scenario_init_def update_states
      getIdxByIds_def getIdx_def findIndex_def scenario_A_def scenario_B_def scenario_X_def)

theorem update_leaves_other_pairs_witness:
  "getIdx scenario_1 1 0 \<noteq> getIdx scenario_1 0 0
   \<and> findIndex (\<lambda>element. source_id element = ''B'') (sources scenario_1) = 1
   \<and> getChainIdx scenario_1 ''X'' = 0
   \<and> states (snd (update scenario_1 ''B'' ''X'' (observation ''B'' ''X'' 80 ''h3'' 1002)))
        (getIdx scenario_1 0 0) = Some (observation ''A'' ''X'' 100 ''h1'' 1000)"
proof -
  have s: "findIndex (\<lambda>element. source_id element = ''B'') (sources scenario_1) = 1"
    by (simp add: scenario_1_states findIndex_def scenario_A_def scenario_B_def)
  have c: "getChainIdx scenario_1 ''X'' = 0"
    by (simp add: getChainIdx_def scenario_1_states findIndex_def scenario_X_def)
  have i: "getIdx scenario_1 0 0 = 0"
    by (simp add: getIdx_def)
  from update_leaves_other_pairs [of 1 0 scenario_1 0 0 "''B''" "''X''"
      "observation ''B'' ''X'' 80 ''h3'' 1002"] s c
  show ?thesis
    by (simp add: scenario_1_states i)
qed

section \<open>Doubles of whole numbers\<close>

lemma round_half_even_of_int: "round_half_even (of_int m) = m"
  by (simp add: round_half_even_def)

lemma pow2_nonneg: "0 \<le> e \<Longrightarrow> pow2 e = 2 ^ nat e"
  by (simp add: pow2_def)

lemma double_exponent_of_int:
  assumes "k \<noteq> 0"
  shows "double_exponent (of_int k) = bitlen \<bar>k\<bar> - 1"
    and "0 \<le> bitlen \<bar>k\<bar> - 1"
    and "(2::int) ^ nat (bitlen \<bar>k\<bar> - 1) \<le> \<bar>k\<bar>"
proof -
  from assms have pos: "0 < \<bar>k\<bar>" by simp
  from bitlen_bounds [OF pos] show low: "(2::int) ^ nat (bitlen \<bar>k\<bar> - 1) \<le> \<bar>k\<bar>" by simp
  from pos have "bitlen \<bar>k\<bar> \<noteq> 0"
    by (simp add: bitlen_eq_zero_iff)
  with bitlen_nonneg [of "\<bar>k\<bar>"] show nn: "0 \<le> bitlen \<bar>k\<bar> - 1" by simp
  have one: "bitlen 1 = 1"
    by (simp add: bitlen_alt_def)
  from low have "(of_int ((2::int) ^ nat (bitlen \<bar>k\<bar> - 1)) :: rat) \<le> of_int \<bar>k\<bar>"
    by (simp only: of_int_le_iff)
  then have "pow2 (bitlen \<bar>k\<bar> - 1) \<le> \<bar>of_int k :: rat\<bar>"
    using nn by (simp add: pow2_nonneg)
  then show "double_exponent (of_int k) = bitlen \<bar>k\<bar> - 1"
    by (simp add: double_exponent_def one)
qed

lemma double_exponent_of_int_le:
  assumes "k \<noteq> 0" and "\<bar>k\<bar> \<le> 2 ^ 53"
  shows "double_exponent (of_int k) \<le> 53"
proof -
  note ex = double_exponent_of_int [OF assms(1)]
  from ex(3) assms(2) have "(2::int) ^ nat (bitlen \<bar>k\<bar> - 1) \<le> 2 ^ 53" by (rule order_trans)
  then have "nat (bitlen \<bar>k\<bar> - 1) \<le> 53" by (rule power_le_imp_le_exp [rotated]) simp
  with ex(1,2) show ?thesis by simp
qed

lemma round_double_of_int:
  assumes "\<bar>k\<bar> \<le> 2 ^ 53"
  shows "round_double (of_int k) = of_int k"
proof (cases "k = 0")
  case True
  then show ?thesis by (simp add: round_double_def)
next
  case False
  define e where "e = bitlen \<bar>k\<bar> - 1"
  note ex = double_exponent_of_int [OF False, folded e_def]
  from ex(3) assms have "(2::int) ^ nat e \<le> 2 ^ 53" by (rule order_trans)
  then have "nat e \<le> 53" by (rule power_le_imp_le_exp [rotated]) simp
  with ex(2) have e53: "e \<le> 53" by simp
  define u where "u = pow2 (e - 52)"
  have rd: "round_double (of_int k) = of_int (round_half_even (of_int k / u)) * u"
    using False ex(1,2) by (simp add: round_double_def Let_def u_def max_def)
  show ?thesis
  proof (cases "e \<le> 52")
    case True
    then have p: "u = 1 / 2 ^ nat (52 - e)"
      unfolding u_def by (cases "e = 52") (simp_all add: pow2_def)
    have "(of_int k :: rat) / u = of_int (k * 2 ^ nat (52 - e))"
      by (simp add: p)
    then have "round_half_even (of_int k / u) = k * 2 ^ nat (52 - e)"
      by (simp only: round_half_even_of_int)
    then show ?thesis
      unfolding rd by (simp add: p)
  next
    case False
    with e53 have e: "e = 53" by simp
    with ex(3) assms have k: "\<bar>k\<bar> = 2 ^ 53" by simp
    have p: "u = 2"
      by (simp add: u_def e pow2_def)
    from k have "k = 9007199254740992 \<or> k = - 9007199254740992" by (simp add: abs_if split: if_splits)
    then have k2: "k = 2 * (k div 2)" by auto
    have "(of_int k :: rat) = 2 * of_int (k div 2)"
      by (subst k2) (simp only: of_int_mult of_int_numeral)
    then have q: "(of_int k :: rat) / u = of_int (k div 2)"
      by (simp add: p)
    have "round_half_even (of_int k / u) = k div 2"
      by (simp only: q round_half_even_of_int)
    then have "round_double (of_int k) = of_int (k div 2) * 2"
      unfolding rd by (simp add: p)
    also have "\<dots> = of_int k"
      using \<open>(of_int k :: rat) = 2 * of_int (k div 2)\<close> by simp
    finally show ?thesis .
  qed
qed

lemma to_double_of_int:
  assumes "\<bar>k\<bar> \<le> 2 ^ 53"
  shows "to_double (of_int k) = Fin (of_int k)"
proof (cases "k = 0")
  case True
  then show ?thesis by (simp add: to_double_def round_double_def)
next
  case False
  from double_exponent_of_int_le [OF False assms]
  have "\<not> 1024 \<le> double_exponent (of_int k)" by simp
  with False show ?thesis
    by (simp add: to_double_def round_double_of_int [OF assms] Let_def)
qed

section \<open>Classification of a cell\<close>

lemma scenario_1_more:
  "bestHeight scenario_1 = [100]"
  "enableSoundFor scenario_1 = JObj []"
  "MAX_BACKEND_SOURCE_CHECK_PERIOD_SECS scenario_1 = 60"
  by (simp_all add: scenario_1_def scenario_updates_def scenario_init_def update_bestHeight
      getChainIdx_def js_get_def findIndex_def scenario_X_def observation_def)


text \<open>The numbers of the scenarios, evaluated.\<close>

lemma scenario_staleness:
  "stalenessSecs 1002000 1001 = Fin 1 \<and> stalenessSecs 1002000 1002 = Fin 0
   \<and> stalenessSecs 2800600 1000 = Fin 1801 \<and> stalenessSecs 1024600 1000 = Fin 25
   \<and> stalenessSecs 32050 (151 / 20) = Fin 24"
  by code_simp

lemma scenario_dates:
  "firstSeen_date_valid 1000 \<and> firstSeen_date_valid 1001 \<and> firstSeen_date_valid 1002
   \<and> firstSeen_date_valid (151 / 20) \<and> stale_limit 600 60 = Fin 1800"
  by code_simp

lemmas scenario_numbers = scenario_staleness scenario_dates

lemma unrounded_difference:
  "number_less (double_sub (to_double (5123 / 5)) (to_double 1000)) (Fin 25)"
  by code_simp




text \<open>
  For a clock reading and a \<open>firstSeenTs\<close> of whole seconds, within the range of dates,
  the staleness is their difference: no rounding occurs.  For a whole block time the limit
  of staleness is the larger of three block times and the period.
\<close>

lemma stalenessSecs_whole:
  assumes "\<bar>n\<bar> \<le> 8640000000000" and "\<bar>t\<bar> \<le> 8640000000000"
  shows "stalenessSecs (1000 * n) (of_int t) = Fin (of_int (n - t))"
proof -
  have n: "\<bar>n\<bar> \<le> 2 ^ 53" and t: "\<bar>t\<bar> \<le> 2 ^ 53" and d: "\<bar>n - t\<bar> \<le> 2 ^ 53"
    using assms by simp_all
  have "(of_int (1000 * n) :: rat) / 1000 = of_int n"
    by simp
  then have now: "to_double (of_int (1000 * n) / 1000) = Fin (of_int n)"
    by (simp only: to_double_of_int [OF n])
  have "double_sub (Fin (of_int n)) (Fin (of_int t)) = to_double (of_int (n - t))"
    by simp
  also have "\<dots> = Fin (of_int (n - t))"
    by (rule to_double_of_int [OF d])
  finally have "Math_round (double_sub (Fin (of_int n)) (Fin (of_int t))) = Fin (of_int (n - t))"
    by (simp add: floor_eq_iff)
  then show ?thesis
    by (simp only: stalenessSecs_def Let_def now to_double_of_int [OF t])
qed

lemma stale_limit_whole:
  assumes "b \<le> 3000000000000000"
  shows "stale_limit (of_nat b) 60 = Fin (of_nat (max (b * 3) 60))"
proof -
  have b1: "\<bar>int b\<bar> \<le> 2 ^ 53" and b3: "\<bar>int (b * 3)\<bar> \<le> 2 ^ 53"
    using assms by simp_all
  have "to_double (of_nat b) = Fin (of_nat b)"
    using to_double_of_int [OF b1] by simp
  moreover have "to_double (of_nat b * 3) = Fin (of_nat (b * 3))"
    using to_double_of_int [OF b3] by simp
  ultimately show ?thesis
    by (simp add: stale_limit_def Math_max_def max_def)
qed

text \<open>
  Claim C8, as amended.  The staleness of a cell is \<^verbatim>\<open>Math.round(nowTs - firstSeenTs)\<close>
  as the script computes it: the clock in milliseconds divided by 1000, the difference and
  the rounding to the nearest second (a half going up) all in doubles.  In any state reached
  from the constructor by updates, a cell that renders carries \<^verbatim>\<open>just-increased\<close> exactly
  when this staleness is below 25, and \<^verbatim>\<open>stale\<close> exactly when it exceeds the larger of
  three block times and 60, the constant the constructor sets.  For whole seconds the
  staleness is the plain difference and the limit the plain maximum.
\<close>

theorem cell_fresh_stale_iff:
  assumes "new_ChainsState item srcs chs = Inr st0"
    and "states (updates st0 us) (getIdx (updates st0 us) (int sourceIdx) (int chainIdx)) = Some obs"
    and "renderCell nowMs (updates st0 us) chainIdx chain best sourceIdx source = Inr c"
  shows "(''just-increased'' \<in> set (classList c)
            \<longleftrightarrow> number_less (stalenessSecs nowMs (firstSeenTs obs)) (Fin 25))
       \<and> (''stale'' \<in> set (classList c)
            \<longleftrightarrow> number_less (stale_limit (blockTimeSecs chain) 60)
                  (stalenessSecs nowMs (firstSeenTs obs)))
       \<and> (\<bar>n\<bar> \<le> 8640000000000 \<and> \<bar>t\<bar> \<le> 8640000000000
            \<longrightarrow> stalenessSecs (1000 * n) (of_int t) = Fin (of_int (n - t)))
       \<and> (b \<le> 3000000000000000 \<longrightarrow> stale_limit (of_nat b) 60 = Fin (of_nat (max (b * 3) 60)))"
proof -
  note m = new_ChainsState_fields(5) [OF assms(1)]
  from assms(2,3) have "(''just-increased'' \<in> set (classList c)
            \<longleftrightarrow> number_less (stalenessSecs nowMs (firstSeenTs obs)) (Fin 25))
       \<and> (''stale'' \<in> set (classList c)
            \<longleftrightarrow> number_less (stale_limit (blockTimeSecs chain) 60)
                  (stalenessSecs nowMs (firstSeenTs obs)))"
    by (auto simp: renderCell_def Let_def m split: sum.splits if_splits)
  with stalenessSecs_whole [of n t] stale_limit_whole [of b] show ?thesis by blast
qed

theorem cell_fresh_stale_iff_witness:
  "new_ChainsState None [scenario_A, scenario_B] [scenario_X] = Inr scenario_init
   \<and> states (updates scenario_init (take 2 scenario_updates))
        (getIdx (updates scenario_init (take 2 scenario_updates)) (int 0) (int 0))
       = Some (observation ''A'' ''X'' 100 ''h1'' 1000)
   \<and> renderCell 2800600 (updates scenario_init (take 2 scenario_updates)) 0 scenario_X (Some 100) 0 scenario_A
       = Inr \<lparr>classList = [''sound-disabled'', ''at-chainhead'', ''stale''],
              cellText = DiffText (Some 0)\<rparr>
   \<and> stalenessSecs 2800600 (firstSeenTs (observation ''A'' ''X'' 100 ''h1'' 1000)) = Fin 1801
   \<and> stale_limit (blockTimeSecs scenario_X) 60 = Fin 1800
   \<and> ''stale'' \<in> set [''sound-disabled'', ''at-chainhead'', ''stale'']
   \<and> ''just-increased'' \<notin> set [''sound-disabled'', ''at-chainhead'', ''stale'']
   \<and> states (updates scenario_init scenario_fraction)
        (getIdx (updates scenario_init scenario_fraction) (int 0) (int 0))
       = Some (observation ''A'' ''X'' 100 ''h1'' (151 / 20))
   \<and> renderCell 32050 (updates scenario_init scenario_fraction) 0 scenario_X (Some 100) 0 scenario_A
       = Inr \<lparr>classList = [''sound-disabled'', ''at-chainhead'', ''just-increased''],
              cellText = DiffText (Some 0)\<rparr>
   \<and> stalenessSecs 32050 (firstSeenTs (observation ''A'' ''X'' 100 ''h1'' (151 / 20))) = Fin 24
   \<and> ''just-increased'' \<in> set [''sound-disabled'', ''at-chainhead'', ''just-increased'']
   \<and> \<bar>2800 :: int\<bar> \<le> 8640000000000 \<and> \<bar>1000 :: int\<bar> \<le> 8640000000000
   \<and> stalenessSecs (1000 * 2800) (of_int 1000) = Fin (of_int (2800 - 1000))
   \<and> (600 :: nat) \<le> 3000000000000000
   \<and> stale_limit (of_nat 600) 60 = Fin (of_nat (max (600 * 3) 60))"
proof -
  have s: "states (updates scenario_init (take 2 scenario_updates))
        (getIdx (updates scenario_init (take 2 scenario_updates)) (int 0) (int 0))
       = Some (observation ''A'' ''X'' 100 ''h1'' 1000)"
    unfolding scenario_1_def [symmetric] by (simp add: getIdx_def scenario_1_states)
  have r: "renderCell 2800600 (updates scenario_init (take 2 scenario_updates)) 0 scenario_X (Some 100) 0 scenario_A
       = Inr \<lparr>classList = [''sound-disabled'', ''at-chainhead'', ''stale''],
              cellText = DiffText (Some 0)\<rparr>"
    unfolding scenario_1_def [symmetric]
    by (simp add: renderCell_def getIdx_def scenario_1_states scenario_1_more
        getEnableSoundFor_def observation_def scenario_X_def scenario_numbers)
  have s': "states (updates scenario_init scenario_fraction)
        (getIdx (updates scenario_init scenario_fraction) (int 0) (int 0))
       = Some (observation ''A'' ''X'' 100 ''h1'' (151 / 20))"
    by (simp add: scenario_fraction_def scenario_init_def update_states getIdx_def
        getIdxByIds_def findIndex_def scenario_A_def scenario_X_def)
  have r': "renderCell 32050 (updates scenario_init scenario_fraction) 0 scenario_X (Some 100) 0 scenario_A
       = Inr \<lparr>classList = [''sound-disabled'', ''at-chainhead'', ''just-increased''],
              cellText = DiffText (Some 0)\<rparr>"
    using s'
    by (simp add: renderCell_def scenario_init_def getEnableSoundFor_def observation_def
        scenario_X_def scenario_numbers)
  have j: "stalenessSecs 2800600 (firstSeenTs (observation ''A'' ''X'' 100 ''h1'' 1000)) = Fin 1801"
    "stalenessSecs 32050 (firstSeenTs (observation ''A'' ''X'' 100 ''h1'' (151 / 20))) = Fin 24"
    "stale_limit (blockTimeSecs scenario_X) 60 = Fin 1800"
    by (simp_all add: observation_def scenario_X_def scenario_numbers)
  from cell_fresh_stale_iff [OF scenario_init_new s r, of 2800 1000 600]
    cell_fresh_stale_iff [OF scenario_init_new s' r'] scenario_init_new s r s' r' j
  show ?thesis by simp
qed

text \<open>
  The unrounded difference does not decide the class: 24.6 seconds after \<open>firstSeenTs\<close> the
  difference, exact or in doubles, is below 25, yet the staleness is 25 and the cell is not
  \<^verbatim>\<open>just-increased\<close>.
\<close>

theorem staleness_is_rounded_counterexample:
  "(of_int 1024600 / 1000 - firstSeenTs (observation ''A'' ''X'' 100 ''h1'' 1000) :: rat) < 25
   \<and> number_less (double_sub (to_double (of_int 1024600 / 1000))
                     (to_double (firstSeenTs (observation ''A'' ''X'' 100 ''h1'' 1000)))) (Fin 25)
   \<and> states scenario_1 (getIdx scenario_1 (int 0) (int 0)) = Some (observation ''A'' ''X'' 100 ''h1'' 1000)
   \<and> renderCell 1024600 scenario_1 0 scenario_X (js_get (bestHeight scenario_1) (int 0)) 0 scenario_A
       = Inr \<lparr>classList = [''sound-disabled'', ''at-chainhead''], cellText = DiffText (Some 0)\<rparr>
   \<and> ''just-increased'' \<notin> set [''sound-disabled'', ''at-chainhead'']"
  by (simp add: renderCell_def getIdx_def scenario_1_states scenario_1_more js_get_def
      getEnableSoundFor_def observation_def scenario_X_def scenario_numbers unrounded_difference)

section \<open>Observations and the best height\<close>

lemma height_ok_init:
  assumes "new_ChainsState item srcs chs = Inr st0"
  shows "height_ok st0"
  using new_ChainsState_fields [OF assms] by (simp add: height_ok_def)

lemma height_ok_update:
  assumes ok: "height_ok this" and known: "0 \<le> getChainIdx this chain"
  shows "height_ok (snd (update this source chain f))"
proof -
  let ?n = "int (length (chains this))"
  let ?ci = "getChainIdx this chain"
  let ?this' = "snd (update this source chain f)"
  from ok have len: "length (bestHeight this) = length (chains this)"
    and st: "\<And>k p. states this k = Some p \<Longrightarrow> height p \<le> bestHeight this ! nat (k mod ?n)"
    by (auto simp: height_ok_def)
  from getChainIdx_known [OF known] have ci: "?ci < ?n" by simp
  have slot: "getIdxByIds this source chain mod ?n = ?ci"
    unfolding getIdxByIds_def getChainIdx_def [symmetric] using known ci by (rule getIdx_mod)
  have at: "bestHeight ?this' ! nat ?ci = max (bestHeight this ! nat ?ci) (height f)"
    using update_bestHeight_at [OF len known, of source chain f] by simp
  have "height p \<le> bestHeight ?this' ! nat (k mod ?n)" if "states ?this' k = Some p" for k p
  proof (cases "k = getIdxByIds this source chain")
    case True
    with that have "p = f" by (simp add: update_states)
    with True slot at show ?thesis by simp
  next
    case False
    with that have old: "states this k = Some p" by (simp add: update_states)
    from ci known have "0 < ?n" by linarith
    then have "0 \<le> k mod ?n" "k mod ?n < ?n" by simp_all
    then have "nat (k mod ?n) < length (bestHeight this)"
      using len by simp
    then have "bestHeight this ! nat (k mod ?n) \<le> bestHeight ?this' ! nat (k mod ?n)"
      by (rule update_bestHeight_mono)
    with st [OF old] show ?thesis by simp
  qed
  with len show ?thesis by (simp add: height_ok_def)
qed

lemma height_ok_updates:
  assumes "height_ok this" and "list_all (\<lambda>(s, c, f). 0 \<le> getChainIdx this c) us"
  shows "height_ok (updates this us)"
  using assms
proof (induction us arbitrary: this)
  case Nil
  then show ?case by simp
next
  case (Cons u us)
  obtain s c f where u: "u = (s, c, f)" by (cases u)
  from Cons.prems u have "height_ok (snd (update this s c f))"
    by (simp add: height_ok_update)
  moreover from Cons.prems u
  have "list_all (\<lambda>(s', c', f'). 0 \<le> getChainIdx (snd (update this s c f)) c') us"
    by simp
  ultimately show ?case
    using Cons.IH by (simp add: u)
qed

text \<open>
  Claim C10, as amended.  In a state reached from the constructor by updates whose chains
  are all in the registry, an update for a known pair whose height is below the height of
  the stored observation replaces that observation and leaves \<open>bestHeight\<close> as it was.
\<close>

theorem lower_height_replaces_observation:
  assumes "new_ChainsState item srcs chs = Inr st0"
    and "list_all (\<lambda>(s, c, f). 0 \<le> getChainIdx st0 c) us"
    and "0 \<le> findIndex (\<lambda>element. source_id element = source) (sources (updates st0 us))"
    and "0 \<le> getChainIdx (updates st0 us) chain"
    and "states (updates st0 us) (getIdxByIds (updates st0 us) source chain) = Some prev"
    and "height f < height prev"
  shows "states (snd (update (updates st0 us) source chain f))
           (getIdxByIds (updates st0 us) source chain) = Some f
       \<and> bestHeight (snd (update (updates st0 us) source chain f)) = bestHeight (updates st0 us)"
proof -
  let ?st = "updates st0 us"
  let ?n = "int (length (chains ?st))"
  let ?ci = "getChainIdx ?st chain"
  have ok: "height_ok ?st"
    using height_ok_init [OF assms(1)] assms(2) by (rule height_ok_updates)
  then have len: "length (bestHeight ?st) = length (chains ?st)"
    by (simp add: height_ok_def)
  from getChainIdx_known [OF assms(4)] have ci: "?ci < ?n" by simp
  have slot: "getIdxByIds ?st source chain mod ?n = ?ci"
    unfolding getIdxByIds_def getChainIdx_def [symmetric] using assms(4) ci by (rule getIdx_mod)
  from ok assms(5) have "height prev \<le> bestHeight ?st ! nat (getIdxByIds ?st source chain mod ?n)"
    unfolding height_ok_def by blast
  with slot assms(6) have "\<not> bestHeight ?st ! nat ?ci < height f" by simp
  moreover have "js_get (bestHeight ?st) ?ci = Some (bestHeight ?st ! nat ?ci)"
    using assms(4) ci len by (simp add: js_get_def)
  ultimately have "bestHeight (snd (update ?st source chain f)) = bestHeight ?st"
    by (simp add: update_bestHeight)
  then show ?thesis by (simp add: update_states)
qed

theorem lower_height_replaces_observation_witness:
  "new_ChainsState None [scenario_A, scenario_B] [scenario_X] = Inr scenario_init
   \<and> list_all (\<lambda>(s, c, f). 0 \<le> getChainIdx scenario_init c) (take 2 scenario_updates)
   \<and> 0 \<le> findIndex (\<lambda>element. source_id element = ''B'') (sources scenario_1)
   \<and> 0 \<le> getChainIdx scenario_1 ''X''
   \<and> states scenario_1 (getIdxByIds scenario_1 ''B'' ''X'') = Some (observation ''B'' ''X'' 99 ''h2'' 1001)
   \<and> height (observation ''B'' ''X'' 80 ''h3'' 1002) < height (observation ''B'' ''X'' 99 ''h2'' 1001)
   \<and> states (snd (update scenario_1 ''B'' ''X'' (observation ''B'' ''X'' 80 ''h3'' 1002)))
        (getIdxByIds scenario_1 ''B'' ''X'') = Some (observation ''B'' ''X'' 80 ''h3'' 1002)
   \<and> bestHeight (snd (update scenario_1 ''B'' ''X'' (observation ''B'' ''X'' 80 ''h3'' 1002))) = [100]"
proof -
  have a: "list_all (\<lambda>(s, c, f). 0 \<le> getChainIdx scenario_init c) (take 2 scenario_updates)"
    by (simp add: scenario_updates_def getChainIdx_def findIndex_def scenario_init_def scenario_X_def)
  have b: "0 \<le> findIndex (\<lambda>element. source_id element = ''B'') (sources (updates scenario_init (take 2 scenario_updates)))"
    by (simp add: findIndex_def scenario_init_def scenario_A_def scenario_B_def)
  have c: "0 \<le> getChainIdx (updates scenario_init (take 2 scenario_updates)) ''X''"
    by (simp add: getChainIdx_def findIndex_def scenario_init_def scenario_X_def)
  have i: "getIdxByIds scenario_1 ''B'' ''X'' = 1"
    by (simp add: getIdxByIds_def getIdx_def findIndex_def scenario_1_states
        scenario_A_def scenario_B_def scenario_X_def)
  have d: "states (updates scenario_init (take 2 scenario_updates))
             (getIdxByIds (updates scenario_init (take 2 scenario_updates)) ''B'' ''X'')
           = Some (observation ''B'' ''X'' 99 ''h2'' 1001)"
    unfolding scenario_1_def [symmetric] by (simp add: i scenario_1_states)
  have e: "height (observation ''B'' ''X'' 80 ''h3'' 1002) < height (observation ''B'' ''X'' 99 ''h2'' 1001)"
    by (simp add: observation_def)
  from lower_height_replaces_observation [OF scenario_init_new a b c d e]
    scenario_init_new a b c d e
  show ?thesis
    unfolding scenario_1_def [symmetric] by (simp add: scenario_1_more)
qed

text \<open>
  Without the condition on the history the claim fails: the stale frame is stored in the
  slot of the pair \<open>(A, X)\<close> with height 500 while the best height of \<open>X\<close> stays 0, and a
  later update of \<open>(A, X)\<close> with the lower height 300 raises the best height.
\<close>

theorem lower_height_counterexample:
  "0 \<le> findIndex (\<lambda>element. source_id element = ''A'') (sources scenario_stale)
   \<and> 0 \<le> getChainIdx scenario_stale ''X''
   \<and> states scenario_stale (getIdxByIds scenario_stale ''A'' ''X'')
       = Some (observation ''B'' ''Y'' 500 ''h9'' 1000)
   \<and> height (observation ''A'' ''X'' 300 ''h4'' 1003) < height (observation ''B'' ''Y'' 500 ''h9'' 1000)
   \<and> bestHeight scenario_stale = [0]
   \<and> bestHeight (snd (update scenario_stale ''A'' ''X'' (observation ''A'' ''X'' 300 ''h4'' 1003)))
       = [300]"
  by (simp add: scenario_stale_def update_states update_bestHeight getIdxByIds_def getIdx_def
      getChainIdx_def findIndex_def js_get_def scenario_init_def scenario_A_def scenario_B_def
      scenario_X_def observation_def)

section \<open>Updates that name an unknown source or chain\<close>

lemma unknown_source_slot_negative:
  assumes "findIndex (\<lambda>element. source_id element = source) (sources this) < 0"
  shows "getIdxByIds this source chain < 0"
proof -
  from findIndex_neg [OF assms]
  have s: "findIndex (\<lambda>element. source_id element = source) (sources this) = - 1" .
  from findIndex_cases [of "\<lambda>element. chain_id element = chain" "chains this"]
  have "findIndex (\<lambda>element. chain_id element = chain) (chains this) < int (length (chains this))"
    by auto
  with s show ?thesis
    by (simp add: getIdxByIds_def getIdx_def)
qed

text \<open>
  Claim C3, as amended.  No update is rejected: the frame is always stored, at the slot
  computed with \<open>-1\<close> for an index that was not found.  An update whose chain is not in the
  registry leaves every \<open>bestHeight\<close> entry as it was; an update whose source is not in the
  registry is stored at a negative slot and so leaves the slot of every pair of the registry
  (every slot of index at least 0) as it was.
\<close>

theorem unknown_ids_update:
  "states (snd (update this source chain f)) (getIdxByIds this source chain) = Some f
   \<and> (getChainIdx this chain < 0
        \<longrightarrow> bestHeight (snd (update this source chain f)) = bestHeight this)
   \<and> (findIndex (\<lambda>element. source_id element = source) (sources this) < 0
        \<longrightarrow> (\<forall>k\<ge>0. states (snd (update this source chain f)) k = states this k))"
proof -
  have a: "states (snd (update this source chain f)) (getIdxByIds this source chain) = Some f"
    by (simp add: update_states)
  have b: "bestHeight (snd (update this source chain f)) = bestHeight this"
    if "getChainIdx this chain < 0"
    using that by (simp add: update_bestHeight js_get_def)
  have c: "states (snd (update this source chain f)) k = states this k"
    if "findIndex (\<lambda>element. source_id element = source) (sources this) < 0" and "0 \<le> k" for k
    using unknown_source_slot_negative [OF that(1), of chain] that(2)
    by (simp add: update_states)
  from a b c show ?thesis by blast
qed

theorem unknown_ids_update_witness:
  "getChainIdx scenario_1 ''Y'' < 0
   \<and> bestHeight (snd (update scenario_1 ''A'' ''Y'' (observation ''A'' ''Y'' 500 ''h9'' 1003))) = [100]
   \<and> findIndex (\<lambda>element. source_id element = ''C'') (sources scenario_1) < 0
   \<and> states (snd (update scenario_1 ''C'' ''X'' (observation ''C'' ''X'' 700 ''h8'' 1003))) 0
       = Some (observation ''A'' ''X'' 100 ''h1'' 1000)
   \<and> states (snd (update scenario_1 ''C'' ''X'' (observation ''C'' ''X'' 700 ''h8'' 1003))) 1
       = Some (observation ''B'' ''X'' 99 ''h2'' 1001)
   \<and> states (snd (update scenario_1 ''C'' ''X'' (observation ''C'' ''X'' 700 ''h8'' 1003)))
        (getIdxByIds scenario_1 ''C'' ''X'') = Some (observation ''C'' ''X'' 700 ''h8'' 1003)"
proof -
  have y: "getChainIdx scenario_1 ''Y'' < 0"
    by (simp add: getChainIdx_def findIndex_def scenario_1_states scenario_X_def)
  have c: "findIndex (\<lambda>element. source_id element = ''C'') (sources scenario_1) < 0"
    by (simp add: findIndex_def scenario_1_states scenario_A_def scenario_B_def)
  from unknown_ids_update [of scenario_1 "''A''" "''Y''" "observation ''A'' ''Y'' 500 ''h9'' 1003"]
    unknown_ids_update [of scenario_1 "''C''" "''X''" "observation ''C'' ''X'' 700 ''h8'' 1003"]
    y c
  show ?thesis
    by (simp add: scenario_1_states scenario_1_more)
qed

text \<open>
  The claim itself fails on both counts.  The frame for the unknown chain \<open>Y\<close> from the known
  source \<open>B\<close> overwrites the observation of the pair \<open>(A, X)\<close>; the frame from the unknown
  source \<open>C\<close> for the chain \<open>X\<close> raises the best height of \<open>X\<close>.
\<close>

theorem unknown_ids_mutate_counterexample:
  "getChainIdx scenario_1 ''Y'' = - 1
   \<and> states scenario_1 (getIdxByIds scenario_1 ''A'' ''X'') = Some (observation ''A'' ''X'' 100 ''h1'' 1000)
   \<and> states (snd (update scenario_1 ''B'' ''Y'' (observation ''B'' ''Y'' 500 ''h9'' 1003)))
        (getIdxByIds scenario_1 ''A'' ''X'') = Some (observation ''B'' ''Y'' 500 ''h9'' 1003)
   \<and> findIndex (\<lambda>element. source_id element = ''C'') (sources scenario_1) = - 1
   \<and> bestHeight scenario_1 = [100]
   \<and> bestHeight (snd (update scenario_1 ''C'' ''X'' (observation ''C'' ''X'' 700 ''h8'' 1003))) = [700]"
  by (simp add: update_states update_bestHeight getIdxByIds_def getIdx_def getChainIdx_def
      findIndex_def js_get_def scenario_1_states scenario_1_more scenario_A_def scenario_B_def
      scenario_X_def observation_def)

section \<open>What an update stores\<close>

text \<open>
  Claim C5, as amended.  An update stores the received frame whole as the observation of its
  pair: the stored \<open>firstSeenTs\<close> is the one the frame carries, whatever was stored before
  and whether or not height or hash differ.  The client keeps no time of the last check and
  derives no timestamp of its own; in the earlier revision, too, both timestamps of the
  stored observation are the frame's.
\<close>

theorem update_stores_frame:
  "states (snd (update this source chain f)) (getIdxByIds this source chain) = Some f
   \<and> map_option firstSeenTs (states (snd (update this source chain f)) (getIdxByIds this source chain))
       = Some (firstSeenTs f)
   \<and> map_option first_seen_ts
        (legacy_states (snd (legacy_update old source chain g)) (legacy_getIdxByIds old source chain))
       = Some (first_seen_ts g)
   \<and> map_option last_checked_ts
        (legacy_states (snd (legacy_update old source chain g)) (legacy_getIdxByIds old source chain))
       = Some (last_checked_ts g)"
  by (simp add: update_states legacy_update_def Let_def)

text \<open>
  Re-applying the same source, chain, height and hash with another \<open>firstSeenTs\<close> changes
  the stored one; applying another height and hash with the same \<open>firstSeenTs\<close> keeps it.
\<close>

theorem firstSeenTs_from_frame_counterexample:
  "map_option firstSeenTs (states scenario_1 (getIdxByIds scenario_1 ''A'' ''X'')) = Some 1000
   \<and> map_option height (states scenario_1 (getIdxByIds scenario_1 ''A'' ''X'')) = Some 100
   \<and> map_option hash (states scenario_1 (getIdxByIds scenario_1 ''A'' ''X'')) = Some ''h1''
   \<and> map_option firstSeenTs
        (states (snd (update scenario_1 ''A'' ''X'' (observation ''A'' ''X'' 100 ''h1'' 1060)))
           (getIdxByIds scenario_1 ''A'' ''X'')) = Some 1060
   \<and> map_option firstSeenTs
        (states (snd (update scenario_1 ''A'' ''X'' (observation ''A'' ''X'' 101 ''h5'' 1000)))
           (getIdxByIds scenario_1 ''A'' ''X'')) = Some 1000"
  by (simp add: update_states getIdxByIds_def getIdx_def findIndex_def scenario_1_states
      scenario_A_def scenario_B_def scenario_X_def observation_def)

section \<open>The sound of an update\<close>

lemma JSON_parse_scenario_prefs:
  "JSON_parse scenario_prefs_text = Inr (JObj [(units_of ''A###X'', JBool True)])"
  by code_simp

lemma scenario_enabled_new:
  "new_ChainsState (Some scenario_prefs_text) [scenario_A, scenario_B] [scenario_X]
   = Inr scenario_enabled"
proof -
  have "scenario_prefs_text \<noteq> []"
    by (simp add: scenario_prefs_text_def)
  then show ?thesis
    by (simp add: new_ChainsState_def loadEnableSoundFor_def JSON_parse_scenario_prefs
        scenario_enabled_def scenario_init_def)
qed

lemma update_played_iff:
  "played (fst (update this source chain f)) \<longleftrightarrow>
     (case states this (getIdxByIds this source chain) of
        None \<Rightarrow> True
      | Some p \<Rightarrow> loose_ne (hash p) (height f))
     \<and> getEnableSoundFor this source chain = Inr True"
proof -
  have "getEnableSoundFor (snd (update this source chain f)) source chain
        = getEnableSoundFor this source chain"
    by (simp add: getEnableSoundFor_def)
  then show ?thesis
    by (auto simp: update_def Let_def getEnableSoundFor_def split: option.splits sum.splits json.splits)
qed

lemma loose_ne_h1: "loose_ne ''h1'' 100"
  by code_simp

lemma loose_ne_100: "\<not> loose_ne ''100'' 100"
  by code_simp

lemma scenario_enabled_A_X:
  "getEnableSoundFor scenario_enabled ''A'' ''X'' = Inr True"
  "getIdxByIds scenario_enabled ''A'' ''X'' = 0"
  "states scenario_enabled = Map.empty"
  by (simp_all add: getEnableSoundFor_def scenario_enabled_def enableSoundForIdx_def units_of_def
      getIdxByIds_def getIdx_def findIndex_def scenario_init_def scenario_A_def scenario_X_def)

text \<open>
  Claim C2 fails on the code.  With the pair \<open>(A, X)\<close> enabled, the first update for it
  sounds, and so does the re-delivery of the very same height and hash: the script compares
  the previous hash with the new height, and \<^verbatim>\<open>"h1" != 100\<close> holds.  The other way
  round, after an observation whose hash reads as the number 100 a new hash at height 100
  makes no sound.
\<close>

theorem redelivery_alerts_again:
  "new_ChainsState (Some scenario_prefs_text) [scenario_A, scenario_B] [scenario_X]
     = Inr scenario_enabled
   \<and> getEnableSoundFor scenario_enabled ''A'' ''X'' = Inr True
   \<and> played (fst (update scenario_enabled ''A'' ''X'' (observation ''A'' ''X'' 100 ''h1'' 1000)))
   \<and> played (fst (update (snd (update scenario_enabled ''A'' ''X'' (observation ''A'' ''X'' 100 ''h1'' 1000)))
                     ''A'' ''X'' (observation ''A'' ''X'' 100 ''h1'' 1000)))
   \<and> \<not> played (fst (update (snd (update scenario_enabled ''A'' ''X'' (observation ''A'' ''X'' 100 ''100'' 1000)))
                       ''A'' ''X'' (observation ''A'' ''X'' 100 ''h2'' 1060)))"
proof -
  let ?f = "observation ''A'' ''X'' 100 ''h1'' 1000"
  let ?g = "observation ''A'' ''X'' 100 ''100'' 1000"
  have i: "getIdxByIds (snd (update scenario_enabled ''A'' ''X'' h)) ''A'' ''X'' = 0" for h
    using scenario_enabled_A_X(2) by (simp add: getIdxByIds_def getIdx_def)
  have e: "getEnableSoundFor (snd (update scenario_enabled ''A'' ''X'' h)) ''A'' ''X'' = Inr True" for h
    using scenario_enabled_A_X(1) by (simp add: getEnableSoundFor_def)
  have first: "played (fst (update scenario_enabled ''A'' ''X'' ?f))"
    by (simp add: update_played_iff scenario_enabled_A_X)
  have again: "played (fst (update (snd (update scenario_enabled ''A'' ''X'' ?f)) ''A'' ''X'' ?f))"
    by (simp add: update_played_iff i e update_states scenario_enabled_A_X observation_def loose_ne_h1)
  have missed: "\<not> played (fst (update (snd (update scenario_enabled ''A'' ''X'' ?g)) ''A'' ''X''
                                 (observation ''A'' ''X'' 100 ''h2'' 1060)))"
    by (simp add: update_played_iff i e update_states scenario_enabled_A_X observation_def loose_ne_100)
  from scenario_enabled_new scenario_enabled_A_X(1) first again missed show ?thesis
    by simp
qed

section \<open>Reconnecting\<close>

lemma flapping_eq:
  "flapping = \<lparr>reconnectCount = 3, app_chains = None, reconnecting_shown = True, conn_lost_shown = True\<rparr>"
  by (simp add: flapping_def connect_def on_close_def new_App_def showReconnecting_def
      showConnLost_def Let_def)

lemma on_message_resets:
  "msg \<noteq> Unparsable \<Longrightarrow> reconnectCount (snd (on_message item nowMs msg app)) = 0"
  by (cases msg) (simp_all add: Let_def split: option.splits sum.splits prod.splits)

lemma reconnectDelay_range:
  assumes "0 \<le> random" "random < 1"
  shows "0 \<le> reconnectDelay random n \<and> reconnectDelay random n \<le> 60000"
proof -
  have "0 \<le> 1000 * of_nat n * (random + 1 / 2)"
    using assms(1) by simp
  then show ?thesis
    by (simp add: reconnectDelay_def)
qed

text \<open>
  Claim C4, as amended.  For every attempt count and every random factor the delay computed
  by the close handler is between 0 and 60000 milliseconds, and the handler then adds one to
  the counter.  The counter is cleared by the message handler, on every message that parses;
  the open handler leaves it as it is, and so does a message that does not parse.
\<close>

theorem reconnect_delay_and_counter:
  assumes "0 \<le> random" and "random < 1" and "msg \<noteq> Unparsable"
  shows "0 \<le> fst (on_close random app) \<and> fst (on_close random app) \<le> 60000
       \<and> fst (on_close random app) = reconnectDelay random (reconnectCount app)
       \<and> reconnectCount (snd (on_close random app)) = reconnectCount app + 1
       \<and> reconnectCount (snd (on_message item nowMs msg app)) = 0
       \<and> reconnectCount (snd (on_message item nowMs Unparsable app)) = reconnectCount app
       \<and> reconnectCount (on_open app) = reconnectCount app"
proof -
  have d: "fst (on_close random app) = reconnectDelay random (reconnectCount app)"
    by (simp add: on_close_def showConnLost_def Let_def)
  have c: "reconnectCount (snd (on_close random app)) = reconnectCount app + 1"
    by (simp add: on_close_def showConnLost_def Let_def)
  have opn: "reconnectCount (on_open app) = reconnectCount app"
    by (simp add: on_open_def showConnected_def)
  from reconnectDelay_range [OF assms(1,2), of "reconnectCount app"] d c opn
    on_message_resets [OF assms(3), of item nowMs app]
  show ?thesis by simp
qed

theorem reconnect_delay_and_counter_witness:
  "(0::rat) \<le> 1 / 2 \<and> (1 / 2 :: rat) < 1 \<and> Other \<noteq> Unparsable
   \<and> fst (on_close (1 / 2) flapping) = 3000
   \<and> reconnectCount (snd (on_close (1 / 2) flapping)) = 4
   \<and> reconnectCount (snd (on_message None 0 Other flapping)) = 0
   \<and> reconnectCount (on_open flapping) = 3"
proof -
  have r: "reconnectDelay (1 / 2) (reconnectCount flapping) = 3000"
    by (simp add: reconnectDelay_def flapping_eq)
  have n: "reconnectCount flapping = 3"
    by (simp add: flapping_eq)
  from reconnect_delay_and_counter [of "1 / 2" Other flapping None 0] r n
  show ?thesis by simp
qed

text \<open>
  After three losses in a row the open handler leaves the counter at 3; it is a message
  that clears it.
\<close>

theorem counter_not_reset_on_open_counterexample:
  "reconnectCount flapping = 3
   \<and> reconnectCount (on_open flapping) = 3
   \<and> reconnectCount (snd (on_message None 0 Other (on_open flapping))) = 0"
  by (simp add: flapping_eq on_open_def showConnected_def)

section \<open>Loading the preferences\<close>

lemma JSON_parse_brace: "JSON_parse ''{'' = Inl SyntaxError"
  by code_simp

lemma JSON_parse_null: "JSON_parse ''null'' = Inr JNull"
  by code_simp

text \<open>
  Claim C6, as amended.  Loading returns the empty object when the storage has no value or
  the empty string.  On any other stored text it does what \<^verbatim>\<open>JSON.parse\<close> does with it:
  it returns the parsed value, or it raises, and then the constructor of \<open>ChainsState\<close>
  and the handler of the init frame raise as well.
\<close>

theorem loadEnableSoundFor_cases:
  "loadEnableSoundFor None = Inr (JObj [])
   \<and> loadEnableSoundFor (Some []) = Inr (JObj [])
   \<and> (s \<noteq> [] \<longrightarrow> loadEnableSoundFor (Some s) = JSON_parse s)
   \<and> (loadEnableSoundFor item = Inl e \<longrightarrow> new_ChainsState item srcs chs = Inl e)
   \<and> (loadEnableSoundFor item = Inl e
        \<longrightarrow> raised (fst (on_message item nowMs (Init srcs chs) app)) = Some e)"
  by (simp add: loadEnableSoundFor_def new_ChainsState_def JSON_parse_empty_object Let_def)

theorem loadEnableSoundFor_cases_witness:
  "scenario_prefs_text \<noteq> []
   \<and> loadEnableSoundFor (Some scenario_prefs_text) = Inr (JObj [(units_of ''A###X'', JBool True)])
   \<and> loadEnableSoundFor (Some ''{'') = Inl SyntaxError
   \<and> new_ChainsState (Some ''{'') [scenario_A] [scenario_X] = Inl SyntaxError"
proof -
  have a: "scenario_prefs_text \<noteq> []"
    by (simp add: scenario_prefs_text_def)
  have b: "loadEnableSoundFor (Some ''{'') = Inl SyntaxError"
    by (simp add: loadEnableSoundFor_def JSON_parse_brace)
  from loadEnableSoundFor_cases [of scenario_prefs_text]
    loadEnableSoundFor_cases [of _ "Some ''{''" SyntaxError "[scenario_A]" "[scenario_X]"] a b
  show ?thesis
    by (simp add: JSON_parse_scenario_prefs)
qed

text \<open>
  A stored text that does not parse makes the load raise, and with it the handler of the
  init frame; the stored text \<^verbatim>\<open>null\<close> is returned as it parses, which is no mapping.
\<close>

theorem load_raises_counterexample:
  "loadEnableSoundFor (Some ''{'') = Inl SyntaxError
   \<and> raised (fst (on_message (Some ''{'') 0 (Init [scenario_A, scenario_B] [scenario_X])
                    (new_App True False))) = Some SyntaxError
   \<and> loadEnableSoundFor (Some ''null'') = Inr JNull"
  by (simp add: loadEnableSoundFor_def new_ChainsState_def JSON_parse_brace JSON_parse_null)

end
